theory Spec2Isabelle
  imports Complex_Main
begin

section \<open>JavaScript values used by the donate controller\<close>

text \<open>
  A property of a JSON object or of a request that the controller reads may be absent
  (\<open>undefined\<close>), \<open>null\<close>, or hold a value. The three cases are kept apart because
  the controller coerces them to different strings and because a property access on
  \<open>undefined\<close> or \<open>null\<close> raises a TypeError.
\<close>

datatype 'a js = Undefined | Null | Val 'a

text \<open>
  A JavaScript number that came out of an arithmetic operation: \<open>NaN\<close>, or \<open>Num r\<close> for
  the double nearest to the rational \<open>r\<close>. Every \<open>Num r\<close> of this development comes from
  one operation on integers (\<open>x / 100\<close>, \<open>x * 1000\<close>), whose double is the exact result
  rounded once; the rounding itself is not computed. An equation between two such values
  is sound under this reading; nothing is concluded from two of them being different.
\<close>

datatype jsnum = NaN | Num rat

text \<open>Errors a handler body can raise.\<close>

datatype error = TypeError | SyntaxError | InvalidSignature | ProviderError | PersistenceFailure

text \<open>
  What the body passed to \<open>actionWrapper\<close>/\<open>actionWrapperAnon\<close> returns when it does
  not raise: \<open>this.json({}, status)\<close>, or a value (\<open>undefined\<close> when the body runs off
  its end). The wrappers themselves are not part of the controller.
\<close>

datatype 'a reply = Json nat | Done 'a

text \<open>JavaScript truthiness of an optional string and of an optional number.\<close>

fun truthy_str :: "string js \<Rightarrow> bool" where
  "truthy_str (Val s) = (s \<noteq> [])"
| "truthy_str Undefined = False"
| "truthy_str Null = False"

fun truthy_num :: "int js \<Rightarrow> bool" where
  "truthy_num (Val n) = (n \<noteq> 0)"
| "truthy_num Undefined = False"
| "truthy_num Null = False"

text \<open>String coercion in \<open>a + ' ' + b\<close>, and as a property key in \<open>obj[key]\<close>.\<close>

fun js_str :: "string js \<Rightarrow> string" where
  "js_str (Val s) = s"
| "js_str Undefined = ''undefined''"
| "js_str Null = ''null''"

text \<open>Number coercion of an optional integer field in \<open>x / 100\<close> and \<open>x * 1000\<close>.\<close>

fun to_number :: "int js \<Rightarrow> jsnum" where
  "to_number (Val n) = Num (of_int n)"
| "to_number Null = Num 0"
| "to_number Undefined = NaN"

fun js_div :: "jsnum \<Rightarrow> rat \<Rightarrow> jsnum" where
  "js_div NaN d = NaN"
| "js_div (Num r) d = Num (r / d)"

fun js_mul :: "jsnum \<Rightarrow> rat \<Rightarrow> jsnum" where
  "js_mul NaN d = NaN"
| "js_mul (Num r) d = Num (r * d)"

text \<open>
  \<open>new Date(t)\<close>, as its time value in milliseconds: \<open>NaN\<close> (an invalid date) for
  \<open>NaN\<close> and beyond 8.64e15 milliseconds either side of the epoch, else \<open>t\<close> cut to an
  integer.
\<close>

fun new_Date :: "jsnum \<Rightarrow> jsnum" where
  "new_Date NaN = NaN"
| "new_Date (Num t) =
     (if \<bar>t\<bar> \<le> 8640000000000000
      then Num (of_int (if 0 \<le> t then \<lfloor>t\<rfloor> else \<lceil>t\<rceil>))
      else NaN)"

text \<open>
  \<open>String.prototype.toLowerCase\<close> on the ASCII letters and \<open>String.prototype.includes\<close>.
  No character outside \<open>A\<close>..\<open>Z\<close> lower-cases to a run of the letters of
  \<open>subscription\<close>, which is the only string the controller searches for.
\<close>

definition lower_char :: "char \<Rightarrow> char" where
  "lower_char c =
     (case map_of (zip ''ABCDEFGHIJKLMNOPQRSTUVWXYZ'' ''abcdefghijklmnopqrstuvwxyz'') c of
        Some l \<Rightarrow> l
      | None \<Rightarrow> c)"

definition toLowerCase :: "string \<Rightarrow> string" where
  "toLowerCase s = map lower_char s"

fun includes_str :: "string \<Rightarrow> string \<Rightarrow> bool" where
  "includes_str [] sub = (sub = [])"
| "includes_str (c # cs) sub = (take (length sub) (c # cs) = sub \<or> includes_str cs sub)"

text \<open>
  The names every object literal inherits from \<open>Object.prototype\<close>: \<open>obj[key]\<close> with one
  of these keys is not \<open>undefined\<close> even when the object has no such property of its own.
\<close>

definition object_prototype_keys :: "string list" where
  "object_prototype_keys =
     [''constructor'', ''__proto__'', ''hasOwnProperty'', ''isPrototypeOf'',
      ''propertyIsEnumerable'', ''toLocaleString'', ''toString'', ''valueOf'',
      ''__defineGetter__'', ''__defineSetter__'', ''__lookupGetter__'', ''__lookupSetter__'']"

section \<open>Models (\<open>../models\<close>)\<close>

text \<open>
  The payment method of a donation: a display label, \<open>undefined\<close>, or the member of
  \<open>Object.prototype\<close> that a lookup in the \<open>methodTypes\<close> table picked up.
\<close>

datatype label = NoLabel | Label string | ProtoMember string

record gateway =
  g_churchId :: string
  g_privateKey :: string
  g_webhookKey :: string
  g_productId :: string

record eventLog =
  l_id :: string
  l_churchId :: string
  l_customerId :: "string js"
  l_provider :: string
  l_eventType :: string
  l_status :: "string js"
  l_message :: "string js"
  l_created :: jsnum

record customer =
  cu_id :: string
  cu_churchId :: string
  cu_personId :: "string js"

record donationBatch =
  b_id :: string
  b_churchId :: string
  b_current :: bool

record donation =
  d_id :: "string js"
  d_churchId :: string
  d_batchId :: "string js"
  d_personId :: "string js"
  d_amount :: jsnum
  d_method :: label
  d_methodDetails :: "string js"
  d_donationDate :: jsnum

text \<open>An object with an \<open>id\<close> and an \<open>amount\<close>: what \<open>logDonation\<close> reads of a fund.\<close>

record fund =
  f_id :: string
  f_amount :: rat

record fundDonation =
  fd_id :: "string js"
  fd_churchId :: string
  fd_amount :: rat
  fd_donationId :: "string js"
  fd_fundId :: string

record subscription =
  s_id :: string
  s_churchId :: string
  s_personId :: "string js"
  s_customerId :: "string js"

record subscriptionFund =
  sf_id :: "string js"
  sf_churchId :: string
  sf_subscriptionId :: string
  sf_fundId :: string
  sf_amount :: rat

section \<open>Repositories (\<open>this.repositories\<close>)\<close>

datatype repo = GatewayRepo | EventLogRepo | CustomerRepo | DonationBatchRepo | DonationRepo
  | FundDonationRepo | SubscriptionRepo | SubscriptionFundRepo

text \<open>
  The storage behind the repositories: the rows of each table, the counter ids are
  generated from, and the repositories whose calls currently fail.
\<close>

record store =
  gateways :: "gateway list"
  eventLogs :: "eventLog list"
  customers :: "customer list"
  donationBatches :: "donationBatch list"
  donations :: "donation list"
  fundDonations :: "fundDonation list"
  subscriptions :: "subscription list"
  subscriptionFunds :: "subscriptionFund list"
  nextId :: nat
  down :: "repo set"

text \<open>Generated ids: the decimal numeral of the counter.\<close>

fun string_of_nat :: "nat \<Rightarrow> string" where
  "string_of_nat n =
     (if n < 10 then [''0123456789'' ! n]
      else string_of_nat (n div 10) @ [''0123456789'' ! (n mod 10)])"

declare string_of_nat.simps [simp del]

definition gen_id :: "store \<Rightarrow> string" where
  "gen_id st = string_of_nat (nextId st)"

text \<open>
  Modelled from the spec: the repository classes are not among the sources. Section 6 of
  the spec gives each of them "simple load/save/loadAll/loadBySubscriptionId primitives
  scoped by tenant id", and section 7 a \<open>PersistenceFailure\<close> on any repository call.
  A call on a repository that is down fails and writes nothing; \<open>save\<close> and \<open>create\<close>
  append the row and return it, \<open>save\<close> under a generated id where the controller
  passes none; the loads filter by tenant id.
\<close>

definition gateway_loadAll :: "store \<Rightarrow> string \<Rightarrow> error + gateway list" where
  "gateway_loadAll st churchId =
     (if GatewayRepo \<in> down st then Inl PersistenceFailure
      else Inr (filter (\<lambda>g. g_churchId g = churchId) (gateways st)))"

text \<open>Modelled from the spec: \<open>eventLog.load(tenant, event id)\<close>, the entry of that id or nothing.\<close>

definition eventLog_load :: "store \<Rightarrow> string \<Rightarrow> string \<Rightarrow> error + eventLog option" where
  "eventLog_load st churchId eventId =
     (if EventLogRepo \<in> down st then Inl PersistenceFailure
      else Inr (find (\<lambda>l. l_churchId l = churchId \<and> l_id l = eventId) (eventLogs st)))"

text \<open>Modelled from the spec: \<open>eventLog.create(entry)\<close> appends the entry.\<close>

definition eventLog_create :: "store \<Rightarrow> eventLog \<Rightarrow> (error + eventLog) \<times> store" where
  "eventLog_create st l =
     (if EventLogRepo \<in> down st then (Inl PersistenceFailure, st)
      else (Inr l, st\<lparr>eventLogs := eventLogs st @ [l]\<rparr>))"

text \<open>Modelled from the spec: \<open>customer.load(tenant, customer id)\<close>, the customer of that provider id or nothing.\<close>

definition customer_load :: "store \<Rightarrow> string \<Rightarrow> string js \<Rightarrow> error + customer option" where
  "customer_load st churchId customerId =
     (if CustomerRepo \<in> down st then Inl PersistenceFailure
      else Inr (find (\<lambda>c. cu_churchId c = churchId \<and> Val (cu_id c) = customerId) (customers st)))"

text \<open>
  Modelled from the spec: section 4.5, \<open>getOrCreateCurrent(tenantId)\<close> returns the
  tenant's current batch and creates it when the tenant has none.
\<close>

definition donationBatch_getOrCreateCurrent ::
  "store \<Rightarrow> string \<Rightarrow> (error + donationBatch) \<times> store" where
  "donationBatch_getOrCreateCurrent st churchId =
     (if DonationBatchRepo \<in> down st then (Inl PersistenceFailure, st)
      else
        (case find (\<lambda>b. b_churchId b = churchId \<and> b_current b) (donationBatches st) of
           Some b \<Rightarrow> (Inr b, st)
         | None \<Rightarrow>
             (let b = \<lparr>b_id = gen_id st, b_churchId = churchId, b_current = True\<rparr>
              in (Inr b, st\<lparr>donationBatches := donationBatches st @ [b],
                             nextId := Suc (nextId st)\<rparr>))))"

text \<open>Modelled from the spec: \<open>donation.save(row)\<close> stores the donation under a generated id.\<close>

definition donation_save :: "store \<Rightarrow> donation \<Rightarrow> (error + donation) \<times> store" where
  "donation_save st d =
     (if DonationRepo \<in> down st then (Inl PersistenceFailure, st)
      else
        (let row = d\<lparr>d_id := Val (gen_id st)\<rparr>
         in (Inr row, st\<lparr>donations := donations st @ [row], nextId := Suc (nextId st)\<rparr>)))"

text \<open>Modelled from the spec: \<open>fundDonation.save(row)\<close> stores the row under a generated id.\<close>

definition fundDonation_save :: "store \<Rightarrow> fundDonation \<Rightarrow> (error + fundDonation) \<times> store" where
  "fundDonation_save st fd =
     (if FundDonationRepo \<in> down st then (Inl PersistenceFailure, st)
      else
        (let row = fd\<lparr>fd_id := Val (gen_id st)\<rparr>
         in (Inr row, st\<lparr>fundDonations := fundDonations st @ [row],
                          nextId := Suc (nextId st)\<rparr>)))"

text \<open>Modelled from the spec: \<open>subscription.save(row)\<close> stores the row under the provider's id.\<close>

definition subscription_save :: "store \<Rightarrow> subscription \<Rightarrow> (error + subscription) \<times> store" where
  "subscription_save st s =
     (if SubscriptionRepo \<in> down st then (Inl PersistenceFailure, st)
      else (Inr s, st\<lparr>subscriptions := subscriptions st @ [s]\<rparr>))"

text \<open>Modelled from the spec: \<open>subscriptionFund.save(row)\<close> stores the row under a generated id.\<close>

definition subscriptionFund_save ::
  "store \<Rightarrow> subscriptionFund \<Rightarrow> (error + subscriptionFund) \<times> store" where
  "subscriptionFund_save st sf =
     (if SubscriptionFundRepo \<in> down st then (Inl PersistenceFailure, st)
      else
        (let row = sf\<lparr>sf_id := Val (gen_id st)\<rparr>
         in (Inr row, st\<lparr>subscriptionFunds := subscriptionFunds st @ [row],
                          nextId := Suc (nextId st)\<rparr>)))"

text \<open>
  Modelled from the spec: \<open>subscriptionFund.loadBySubscriptionId(tenant, id)\<close>. Section 4.6
  has the webhook "load the fund split from the stored Subscription's fund records by
  subscription id", a fund split being a "list of \<open>{id, amount}\<close>", and property 7 has it
  "recover the fund split from the stored SubscriptionFund rows matching the subscription
  id": the call returns, for each stored row of the tenant and the subscription, the
  fund's id and the amount as an object \<open>{id, amount}\<close>.
\<close>

definition fund_of_row :: "subscriptionFund \<Rightarrow> fund" where
  "fund_of_row sf = \<lparr>f_id = sf_fundId sf, f_amount = sf_amount sf\<rparr>"

definition subscriptionFund_loadBySubscriptionId ::
  "store \<Rightarrow> string \<Rightarrow> string js \<Rightarrow> error + fund list" where
  "subscriptionFund_loadBySubscriptionId st churchId subscriptionId =
     (if SubscriptionFundRepo \<in> down st then Inl PersistenceFailure
      else Inr (map fund_of_row
                  (filter (\<lambda>sf. sf_churchId sf = churchId
                               \<and> Val (sf_subscriptionId sf) = subscriptionId)
                     (subscriptionFunds st))))"

text \<open>
  \<open>xs.forEach(x => promises.push(save(x))); await Promise.all(promises)\<close>: every save is
  started, so a failing save does not stop the others from writing; the result is the
  list of the saved rows, or the error of the first save (in list order) that failed.
\<close>

fun promise_all ::
  "(store \<Rightarrow> 'a \<Rightarrow> (error + 'b) \<times> store) \<Rightarrow> store \<Rightarrow> 'a list \<Rightarrow> (error + 'b list) \<times> store" where
  "promise_all save st [] = (Inr [], st)"
| "promise_all save st (x # xs) =
     (case save st x of
        (r, st1) \<Rightarrow>
          (case promise_all save st1 xs of
             (rs, st2) \<Rightarrow>
               (case r of
                  Inl e \<Rightarrow> (Inl e, st2)
                | Inr y \<Rightarrow> (case rs of Inl e \<Rightarrow> (Inl e, st2) | Inr ys \<Rightarrow> (Inr (y # ys), st2)))))"

section \<open>\<open>DonateController\<close>\<close>

subsection \<open>\<open>logDonation\<close>\<close>

definition logDonation ::
  "store \<Rightarrow> donation \<Rightarrow> fund list \<Rightarrow> (error + fundDonation list) \<times> store" where
  "logDonation st donationData fundData =
     (case donationBatch_getOrCreateCurrent st (d_churchId donationData) of
        (Inl e, st1) \<Rightarrow> (Inl e, st1)
      | (Inr batch, st1) \<Rightarrow>
          (case donation_save st1 (donationData\<lparr>d_batchId := Val (b_id batch)\<rparr>) of
             (Inl e, st2) \<Rightarrow> (Inl e, st2)
           | (Inr donation, st2) \<Rightarrow>
               promise_all fundDonation_save st2
                 (map (\<lambda>fund. \<lparr>fd_id = Undefined, fd_churchId = d_churchId donation,
                                fd_amount = f_amount fund, fd_donationId = d_id donation,
                                fd_fundId = f_id fund\<rparr>) fundData)))"

subsection \<open>Provider events and external collaborators\<close>

record pm_sub =
  last4 :: "string js"

text \<open>
  \<open>payment_method_details\<close>: its \<open>type\<close> and the sub-objects it holds under other
  property names.
\<close>

record payment_method_details =
  pm_type :: "string js"
  pm_subs :: "(string \<times> pm_sub) list"

record outcome =
  seller_message :: "string js"

record metadata =
  funds :: "string js"

text \<open>\<open>stripeEvent.data.object\<close>, with the properties the webhook reads.\<close>

record event_data =
  subscription :: "string js"
  description :: "string js"
  created :: "int js"
  customer :: "string js"
  status :: "string js"
  amount :: "int js"
  metadata :: "metadata js"
  failure_message :: "string js"
  outcome :: "outcome js"
  payment_method_details :: "payment_method_details js"
  amount_paid :: "int js"
  billing_reason :: "string js"
  charge :: "string js"

record stripe_event =
  ev_id :: string
  ev_type :: string
  ev_data :: event_data

record charge_data =
  ch_payment_method_details :: "payment_method_details js"

text \<open>
  The webhook request: \<open>req.query.churchId\<close>, \<open>req.headers["stripe-signature"]\<close> and
  the raw body.
\<close>

record webhook_request =
  query_churchId :: "string option"
  stripe_signature :: "string option"
  raw_body :: string

record paymentDetails =
  pd_payment_method_id :: "string js"
  pd_amount :: "int js"
  pd_currency :: string
  pd_customer :: "string js"
  pd_type :: "string js"
  pd_billing_cycle_anchor :: "int js"
  pd_proration_behavior :: "string js"
  pd_interval :: "string js"
  pd_productId :: "string js"

text \<open>
  What \<open>JSON.parse\<close> makes of the text of \<open>metadata.funds\<close>: an array of objects with an
  \<open>id\<close> and an \<open>amount\<close>, or a value that is no array (an object, a number, a string,
  \<open>null\<close>) and so has no \<open>forEach\<close>.
\<close>

datatype parsed_funds = FundArray "fund list" | NotAnArray

text \<open>
  The collaborators the controller calls and that are not among the sources:
  \<open>EncryptionHelper.decrypt\<close>, \<open>StripeHelper.verifySignature\<close>, \<open>StripeHelper.getCharge\<close>,
  \<open>StripeHelper.createSubscription\<close> (the id of the subscription it returns) and
  \<open>JSON.parse\<close> on the text of \<open>metadata.funds\<close>. They are parameters of the model;
  each fallible one returns an error or a value.
\<close>

record env =
  decrypt :: "string \<Rightarrow> string"
  verifySignature :: "string \<Rightarrow> webhook_request \<Rightarrow> string \<Rightarrow> string \<Rightarrow> error + stripe_event"
  getCharge :: "string \<Rightarrow> string \<Rightarrow> error + charge_data"
  createSubscription :: "string \<Rightarrow> paymentDetails \<Rightarrow> error + string"
  json_parse :: "string \<Rightarrow> error + parsed_funds"

subsection \<open>\<open>loadPrivateKey\<close>\<close>

definition loadPrivateKey :: "env \<Rightarrow> store \<Rightarrow> string \<Rightarrow> error + string" where
  "loadPrivateKey env st churchId =
     (case gateway_loadAll st churchId of
        Inl e \<Rightarrow> Inl e
      | Inr gatewayList \<Rightarrow>
          (case gatewayList of [] \<Rightarrow> Inr [] | gateway # _ \<Rightarrow> Inr (decrypt env (g_privateKey gateway))))"

subsection \<open>\<open>log\<close>: POST /donate/log\<close>

text \<open>
  The request: its headers and, in its body, the donation and one fund allocation. The
  body of the handler reads \<open>req.body\<close> only.
\<close>

record log_request =
  lr_headers :: "(string \<times> string) list"
  lr_donation :: donation
  lr_fundData :: fund

text \<open>
  \<open>this.logDonation(donation, [fundData])\<close> is called without \<open>await\<close> and its promise is
  dropped: its writes take place, its result and its rejection are not looked at, and the
  body runs off its end.
\<close>

definition log :: "env \<Rightarrow> store \<Rightarrow> log_request \<Rightarrow> (error + unit reply) \<times> store" where
  "log env st req =
     (case loadPrivateKey env st (d_churchId (lr_donation req)) of
        Inl e \<Rightarrow> (Inl e, st)
      | Inr secretKey \<Rightarrow>
          if secretKey = [] then (Inr (Json 401), st)
          else
            (case logDonation st (lr_donation req) [lr_fundData req] of
               (dropped, st') \<Rightarrow> (Inr (Done ()), st')))"

subsection \<open>\<open>init\<close>: POST /donate/webhook/:provider\<close>

text \<open>
  Lines 25 to 36: the tenant's gateway, its secret key and the verified event. The result
  is what the body returns or raises at once, or the tenant id, the secret key and the
  event the rest of the body works on.
\<close>

definition authenticate ::
  "env \<Rightarrow> store \<Rightarrow> webhook_request \<Rightarrow> (error + unit reply) + string \<times> string \<times> stripe_event" where
  "authenticate env st req =
     (case query_churchId req of
        None \<Rightarrow> Inl (Inl TypeError)
      | Some churchId \<Rightarrow>
          (case gateway_loadAll st churchId of
             Inl e \<Rightarrow> Inl (Inl e)
           | Inr gatewayList \<Rightarrow>
               (case gatewayList of
                  [] \<Rightarrow> Inl (Inr (Json 401))
                | gateway # _ \<Rightarrow>
                    (let secretKey = decrypt env (g_privateKey gateway) in
                     if secretKey = [] then Inl (Inr (Json 401))
                     else
                       (case stripe_signature req of
                          None \<Rightarrow> Inl (Inl TypeError)
                        | Some sig \<Rightarrow>
                            (case verifySignature env secretKey req sig
                                    (decrypt env (g_webhookKey gateway)) of
                               Inl e \<Rightarrow> Inl (Inl e)
                             | Inr stripeEvent \<Rightarrow> Inr (churchId, secretKey, stripeEvent)))))))"

text \<open>
  Line 41: \<open>eventData.subscription || eventData.description?.toLowerCase().includes('subscription')\<close>,
  read as a condition.
\<close>

definition subscriptionEvent :: "event_data \<Rightarrow> bool" where
  "subscriptionEvent eventData =
     (truthy_str (subscription eventData) \<or>
      (case description eventData of
         Val d \<Rightarrow> includes_str (toLowerCase d) ''subscription''
       | Undefined \<Rightarrow> False
       | Null \<Rightarrow> False))"

text \<open>Lines 47 to 51: the payment method details, of the charge when the event names one.\<close>

definition resolvePaymentMethodDetails ::
  "env \<Rightarrow> string \<Rightarrow> event_data \<Rightarrow> error + payment_method_details js" where
  "resolvePaymentMethodDetails env secretKey eventData =
     (if truthy_str (charge eventData) then
        (case getCharge env secretKey (js_str (charge eventData)) of
           Inl e \<Rightarrow> Inl e
         | Inr chargeData \<Rightarrow> Inr (ch_payment_method_details chargeData))
      else Inr (payment_method_details eventData))"

text \<open>
  Lines 53 to 57. \<open>methodTypes[paymentType]\<close> is the label of the table, a member of
  \<open>Object.prototype\<close>, or \<open>undefined\<close>. \<open>paymentMethodDetails[paymentType].last4\<close> raises
  a TypeError when \<open>paymentMethodDetails[paymentType]\<close> is \<open>undefined\<close>; under the key
  \<open>type\<close> it is the type's own string and under a key of \<open>Object.prototype\<close> a member
  of it, and neither has a \<open>last4\<close>.
\<close>

definition methodTypes :: "string \<Rightarrow> label" where
  "methodTypes paymentType =
     (if paymentType = ''ach_debit'' then Label ''ACH Debit''
      else if paymentType = ''card'' then Label ''Card''
      else if paymentType \<in> set object_prototype_keys then ProtoMember paymentType
      else NoLabel)"

definition pm_last4 :: "payment_method_details \<Rightarrow> string \<Rightarrow> error + string js" where
  "pm_last4 paymentMethodDetails paymentType =
     (if paymentType = ''type'' then Inr Undefined
      else
        (case map_of (pm_subs paymentMethodDetails) paymentType of
           Some sub \<Rightarrow> Inr (last4 sub)
         | None \<Rightarrow>
             if paymentType \<in> set object_prototype_keys then Inr Undefined else Inl TypeError))"

definition extractPaymentDetails ::
  "payment_method_details js \<Rightarrow> error + label \<times> string js" where
  "extractPaymentDetails paymentMethodDetails =
     (case paymentMethodDetails of
        Val p \<Rightarrow>
          (let paymentType = js_str (pm_type p);
               method = methodTypes paymentType
           in (case pm_last4 p paymentType of
                 Inl e \<Rightarrow> Inl e
               | Inr methodDetails \<Rightarrow> Inr (method, methodDetails)))
      | Undefined \<Rightarrow> Inl TypeError
      | Null \<Rightarrow> Inl TypeError)"

text \<open>Lines 64 and 65: the message of the event log entry.\<close>

definition eventMessage :: "event_data \<Rightarrow> error + string js" where
  "eventMessage eventData =
     (if truthy_str (billing_reason eventData) then
        Inr (Val (js_str (billing_reason eventData) @ '' '' @ js_str (status eventData)))
      else
        (case outcome eventData of
           Val oc \<Rightarrow>
             if truthy_str (failure_message eventData) then
               Inr (Val (js_str (failure_message eventData) @ '' '' @ js_str (seller_message oc)))
             else Inr (seller_message oc)
         | Undefined \<Rightarrow> Inl TypeError
         | Null \<Rightarrow> Inl TypeError))"

text \<open>Lines 61 to 68: the event is logged unless the tenant's log has its id already.\<close>

definition logEvent ::
  "store \<Rightarrow> string \<Rightarrow> stripe_event \<Rightarrow> jsnum \<Rightarrow> (error + unit) \<times> store" where
  "logEvent st churchId stripeEvent donationDate =
     (case eventLog_load st churchId (ev_id stripeEvent) of
        Inl e \<Rightarrow> (Inl e, st)
      | Inr (Some existingEvent) \<Rightarrow> (Inr (), st)
      | Inr None \<Rightarrow>
          (case eventMessage (ev_data stripeEvent) of
             Inl e \<Rightarrow> (Inl e, st)
           | Inr message \<Rightarrow>
               (case eventLog_create st
                       \<lparr>l_id = ev_id stripeEvent, l_churchId = churchId,
                        l_customerId = customer (ev_data stripeEvent), l_provider = ''Stripe'',
                        l_eventType = ev_type stripeEvent, l_status = status (ev_data stripeEvent),
                        l_message = message, l_created = donationDate\<rparr> of
                  (Inl e, st1) \<Rightarrow> (Inl e, st1)
                | (Inr created_row, st1) \<Rightarrow> (Inr (), st1))))"

text \<open>Line 72: \<open>(amount || amount_paid) / 100\<close>.\<close>

definition donationAmount :: "event_data \<Rightarrow> jsnum" where
  "donationAmount eventData =
     js_div (to_number (if truthy_num (amount eventData) then amount eventData
                        else amount_paid eventData)) 100"

text \<open>Line 75: the funds of the donation.\<close>

definition resolveFunds ::
  "env \<Rightarrow> store \<Rightarrow> string \<Rightarrow> metadata \<Rightarrow> string js \<Rightarrow> error + parsed_funds" where
  "resolveFunds env st churchId md subscriptionId =
     (if truthy_str (funds md) then json_parse env (js_str (funds md))
      else
        (case subscriptionFund_loadBySubscriptionId st churchId subscriptionId of
           Inl e \<Rightarrow> Inl e
         | Inr split \<Rightarrow> Inr (FundArray split)))"

text \<open>
  \<open>logDonation\<close> as the webhook calls it, on the value of line 75. On a value that is
  no array, lines 124 to 126 run, and \<open>fundData.forEach\<close> on line 128 raises a TypeError
  after the donation is saved.
\<close>

definition logDonation_parsed ::
  "store \<Rightarrow> donation \<Rightarrow> parsed_funds \<Rightarrow> (error + fundDonation list) \<times> store" where
  "logDonation_parsed st donationData fundData =
     (case fundData of
        FundArray fundList \<Rightarrow> logDonation st donationData fundList
      | NotAnArray \<Rightarrow>
          (case donationBatch_getOrCreateCurrent st (d_churchId donationData) of
             (Inl e, st1) \<Rightarrow> (Inl e, st1)
           | (Inr batch, st1) \<Rightarrow>
               (case donation_save st1 (donationData\<lparr>d_batchId := Val (b_id batch)\<rparr>) of
                  (Inl e, st2) \<Rightarrow> (Inl e, st2)
                | (Inr donation, st2) \<Rightarrow> (Inl TypeError, st2))))"

text \<open>Lines 71 to 77: the donation of a \<open>charge.succeeded\<close> or \<open>invoice.paid\<close> event.\<close>

definition logEventDonation ::
  "env \<Rightarrow> store \<Rightarrow> string \<Rightarrow> event_data \<Rightarrow> label \<Rightarrow> string js \<Rightarrow> jsnum
     \<Rightarrow> (error + unit reply) \<times> store" where
  "logEventDonation env st churchId eventData method methodDetails donationDate =
     (case customer_load st churchId (customer eventData) of
        Inl e \<Rightarrow> (Inl e, st)
      | Inr None \<Rightarrow> (Inl TypeError, st)
      | Inr (Some customerData) \<Rightarrow>
          (case metadata eventData of
             Undefined \<Rightarrow> (Inl TypeError, st)
           | Null \<Rightarrow> (Inl TypeError, st)
           | Val md \<Rightarrow>
               (case resolveFunds env st churchId md (subscription eventData) of
                  Inl e \<Rightarrow> (Inl e, st)
                | Inr fundData \<Rightarrow>
                    (case logDonation_parsed st
                            \<lparr>d_id = Undefined, d_churchId = churchId, d_batchId = Undefined,
                             d_personId = cu_personId customerData,
                             d_amount = donationAmount eventData, d_method = method,
                             d_methodDetails = methodDetails, d_donationDate = donationDate\<rparr>
                            fundData of
                       (Inl e, st1) \<Rightarrow> (Inl e, st1)
                     | (Inr saved, st1) \<Rightarrow> (Inr (Done ()), st1)))))"

text \<open>Lines 38 to 77: the body after the signature is verified.\<close>

definition process ::
  "env \<Rightarrow> store \<Rightarrow> string \<Rightarrow> string \<Rightarrow> stripe_event \<Rightarrow> (error + unit reply) \<times> store" where
  "process env st churchId secretKey stripeEvent =
     (let eventData = ev_data stripeEvent in
      if ev_type stripeEvent = ''charge.succeeded'' \<and> subscriptionEvent eventData
      then (Inr (Json 200), st)
      else
        (case resolvePaymentMethodDetails env secretKey eventData of
           Inl e \<Rightarrow> (Inl e, st)
         | Inr paymentMethodDetails \<Rightarrow>
             (case extractPaymentDetails paymentMethodDetails of
                Inl e \<Rightarrow> (Inl e, st)
              | Inr (method, methodDetails) \<Rightarrow>
                  (let donationDate = new_Date (js_mul (to_number (created eventData)) 1000) in
                   (case logEvent st churchId stripeEvent donationDate of
                      (Inl e, st1) \<Rightarrow> (Inl e, st1)
                    | (Inr logged, st1) \<Rightarrow>
                        if ev_type stripeEvent = ''charge.succeeded''
                           \<or> ev_type stripeEvent = ''invoice.paid''
                        then logEventDonation env st1 churchId eventData method methodDetails
                               donationDate
                        else (Inr (Done ()), st1))))))"

definition init :: "env \<Rightarrow> store \<Rightarrow> webhook_request \<Rightarrow> (error + unit reply) \<times> store" where
  "init env st req =
     (case authenticate env st req of
        Inl r \<Rightarrow> (r, st)
      | Inr (churchId, secretKey, stripeEvent) \<Rightarrow> process env st churchId secretKey stripeEvent)"

subsection \<open>\<open>subscribe\<close>: POST /donate/subscribe\<close>

record person =
  p_id :: "string js"

record subscribe_body =
  sb_id :: "string js"
  sb_amount :: "int js"
  sb_customerId :: "string js"
  sb_type :: "string js"
  sb_billing_cycle_anchor :: "int js"
  sb_proration_behavior :: "string js"
  sb_interval :: "string js"
  sb_funds :: "fund list"
  sb_person :: "person js"

text \<open>Lines 114 to 119: one \<open>subscriptionFund\<close> row for each fund of the request.\<close>

definition subscriptionFundRows :: "string \<Rightarrow> string \<Rightarrow> fund list \<Rightarrow> subscriptionFund list" where
  "subscriptionFundRows churchId subscriptionId fundList =
     map (\<lambda>fund. \<lparr>sf_id = Undefined, sf_churchId = churchId, sf_subscriptionId = subscriptionId,
                    sf_fundId = f_id fund, sf_amount = f_amount fund\<rparr>) fundList"

text \<open>\<open>au\<close> is the authenticated user \<open>actionWrapper\<close> passes in; the body reads its tenant id.\<close>

definition subscribe ::
  "env \<Rightarrow> store \<Rightarrow> string \<Rightarrow> subscribe_body \<Rightarrow> (error + subscriptionFund list reply) \<times> store" where
  "subscribe env st au_churchId body =
     (case loadPrivateKey env st au_churchId of
        Inl e \<Rightarrow> (Inl e, st)
      | Inr secretKey \<Rightarrow>
          if secretKey = [] then (Inr (Json 401), st)
          else
            (case gateway_loadAll st au_churchId of
               Inl e \<Rightarrow> (Inl e, st)
             | Inr [] \<Rightarrow> (Inl TypeError, st)
             | Inr (gateway # rest) \<Rightarrow>
                 (case createSubscription env secretKey
                         \<lparr>pd_payment_method_id = sb_id body, pd_amount = sb_amount body,
                          pd_currency = ''usd'', pd_customer = sb_customerId body,
                          pd_type = sb_type body,
                          pd_billing_cycle_anchor = sb_billing_cycle_anchor body,
                          pd_proration_behavior = sb_proration_behavior body,
                          pd_interval = sb_interval body,
                          pd_productId = Val (g_productId gateway)\<rparr> of
                    Inl e \<Rightarrow> (Inl e, st)
                  | Inr stripeSubscriptionId \<Rightarrow>
                      (case sb_person body of
                         Undefined \<Rightarrow> (Inl TypeError, st)
                       | Null \<Rightarrow> (Inl TypeError, st)
                       | Val p \<Rightarrow>
                           (case subscription_save st
                                   \<lparr>s_id = stripeSubscriptionId, s_churchId = au_churchId,
                                    s_personId = p_id p, s_customerId = sb_customerId body\<rparr> of
                              (Inl e, st1) \<Rightarrow> (Inl e, st1)
                            | (Inr saved, st1) \<Rightarrow>
                                (case promise_all subscriptionFund_save st1
                                        (subscriptionFundRows au_churchId stripeSubscriptionId
                                           (sb_funds body)) of
                                   (Inl e, st2) \<Rightarrow> (Inl e, st2)
                                 | (Inr rows, st2) \<Rightarrow> (Inr (Done rows), st2)))))))"

section \<open>A tenant, its collaborators and some provider events\<close>

definition card_details :: payment_method_details where
  "card_details = \<lparr>pm_type = Val ''card'', pm_subs = [(''card'', \<lparr>last4 = Val ''4242''\<rparr>)]\<rparr>"

definition fundsA :: "fund list" where
  "fundsA = [\<lparr>f_id = ''fundA'', f_amount = 10\<rparr>, \<lparr>f_id = ''fundB'', f_amount = 15\<rparr>]"

text \<open>The text of \<open>metadata.funds\<close> for the funds \<open>fundsA\<close>.\<close>

definition funds_json :: string where
  \<open>funds_json = ''[{"id":"fundA","amount":10},{"id":"fundB","amount":15}]''\<close>

text \<open>
  Collaborators for a tenant whose keys are stored in the clear: the verifier accepts the
  signature that equals the webhook key and then returns the event \<open>ev\<close>; every charge
  was paid by card; the provider names every new subscription \<open>sub_1\<close>; the parser knows
  the text \<open>funds_json\<close> and the empty object.
\<close>

definition env_of :: "stripe_event \<Rightarrow> env" where
  \<open>env_of ev =
     \<lparr>decrypt = (\<lambda>c. c),
      verifySignature =
        (\<lambda>secretKey req sig webhookKey. if sig = webhookKey then Inr ev else Inl InvalidSignature),
      getCharge = (\<lambda>secretKey chargeId. Inr \<lparr>ch_payment_method_details = Val card_details\<rparr>),
      createSubscription = (\<lambda>secretKey paymentData. Inr ''sub_1''),
      json_parse =
        (\<lambda>text. if text = funds_json
                then Inr (FundArray fundsA)
                else if text = ''{}'' then Inr NotAnArray else Inl SyntaxError)\<rparr>\<close>

definition gateway0 :: gateway where
  "gateway0 =
     \<lparr>g_churchId = ''church1'', g_privateKey = ''sk_test'', g_webhookKey = ''whsec'',
      g_productId = ''prod_1''\<rparr>"

definition store0 :: store where
  "store0 =
     \<lparr>gateways = [gateway0], eventLogs = [],
      customers = [\<lparr>cu_id = ''cus_1'', cu_churchId = ''church1'', cu_personId = Val ''person1''\<rparr>],
      donationBatches = [], donations = [], fundDonations = [], subscriptions = [],
      subscriptionFunds = [], nextId = 1, down = {}\<rparr>"

text \<open>The store after the tenant's donor subscribed with the funds \<open>fundsA\<close>.\<close>

definition store1 :: store where
  "store1 =
     store0\<lparr>subscriptions :=
              [\<lparr>s_id = ''sub_1'', s_churchId = ''church1'', s_personId = Val ''person1'',
                s_customerId = Val ''cus_1''\<rparr>],
            subscriptionFunds :=
              [\<lparr>sf_id = Val ''1'', sf_churchId = ''church1'', sf_subscriptionId = ''sub_1'',
                sf_fundId = ''fundA'', sf_amount = 10\<rparr>,
               \<lparr>sf_id = Val ''2'', sf_churchId = ''church1'', sf_subscriptionId = ''sub_1'',
                sf_fundId = ''fundB'', sf_amount = 15\<rparr>],
            nextId := 3\<rparr>"

definition webhook0 :: webhook_request where
  "webhook0 =
     \<lparr>query_churchId = Some ''church1'', stripe_signature = Some ''whsec'', raw_body = ''{}''\<rparr>"

text \<open>An \<open>invoice.paid\<close> event of the subscription \<open>sub_1\<close>, without fund metadata.\<close>

definition invoice_paid_event :: stripe_event where
  "invoice_paid_event =
     \<lparr>ev_id = ''evt_1'', ev_type = ''invoice.paid'',
      ev_data =
        \<lparr>subscription = Val ''sub_1'', description = Null, created = Val 1600000000,
         customer = Val ''cus_1'', status = Val ''paid'', amount = Undefined,
         metadata = Val \<lparr>funds = Undefined\<rparr>, failure_message = Undefined,
         outcome = Undefined, payment_method_details = Undefined, amount_paid = Val 2500,
         billing_reason = Val ''subscription_cycle'', charge = Val ''ch_1''\<rparr>\<rparr>"

text \<open>The fields of a \<open>charge.succeeded\<close> event paid by card; the events below vary them.\<close>

definition charge_data0 :: event_data where
  "charge_data0 =
     \<lparr>subscription = Undefined, description = Null, created = Val 1600000000,
      customer = Val ''cus_1'', status = Val ''succeeded'', amount = Val 2500,
      metadata = Val \<lparr>funds = Undefined\<rparr>, failure_message = Null,
      outcome = Val \<lparr>seller_message = Val ''Payment complete.''\<rparr>,
      payment_method_details = Val card_details, amount_paid = Undefined,
      billing_reason = Undefined, charge = Undefined\<rparr>"

text \<open>The charge of a subscription, named so by its description.\<close>

definition subscription_charge_event :: stripe_event where
  "subscription_charge_event =
     \<lparr>ev_id = ''evt_2'', ev_type = ''charge.succeeded'',
      ev_data = charge_data0\<lparr>description := Val ''Subscription creation''\<rparr>\<rparr>"

text \<open>A declined charge.\<close>

definition charge_failed_event :: stripe_event where
  "charge_failed_event =
     \<lparr>ev_id = ''evt_3'', ev_type = ''charge.failed'',
      ev_data =
        charge_data0\<lparr>status := Val ''failed'',
                      failure_message := Val ''Your card was declined.'',
                      outcome := Val \<lparr>seller_message = Val ''The bank declined the charge.''\<rparr>\<rparr>\<rparr>"

text \<open>A one-time charge that carries its funds in its metadata.\<close>

definition one_time_charge_event :: stripe_event where
  \<open>one_time_charge_event =
     \<lparr>ev_id = ''evt_4'', ev_type = ''charge.succeeded'',
      ev_data =
        charge_data0\<lparr>metadata :=
          Val \<lparr>funds = Val funds_json\<rparr>\<rparr>\<rparr>\<close>

text \<open>A one-time charge paid by SEPA debit, a payment method outside the table.\<close>

definition sepa_details :: payment_method_details where
  "sepa_details =
     \<lparr>pm_type = Val ''sepa_debit'', pm_subs = [(''sepa_debit'', \<lparr>last4 = Val ''3000''\<rparr>)]\<rparr>"

definition sepa_charge_event :: stripe_event where
  \<open>sepa_charge_event =
     \<lparr>ev_id = ''evt_5'', ev_type = ''charge.succeeded'',
      ev_data =
        charge_data0\<lparr>payment_method_details := Val sepa_details,
          metadata :=
            Val \<lparr>funds = Val funds_json\<rparr>\<rparr>\<rparr>\<close>

text \<open>A charge paid from a bank account.\<close>

definition ach_details :: payment_method_details where
  "ach_details =
     \<lparr>pm_type = Val ''ach_debit'', pm_subs = [(''ach_debit'', \<lparr>last4 = Val ''6789''\<rparr>)]\<rparr>"

text \<open>An \<open>invoice.paid\<close> event like the first, whose object also has an \<open>amount\<close>.\<close>

definition invoice_with_amount_event :: stripe_event where
  "invoice_with_amount_event =
     \<lparr>ev_id = ''evt_6'', ev_type = ''invoice.paid'',
      ev_data = (ev_data invoice_paid_event)\<lparr>amount := Val 999\<rparr>\<rparr>"

text \<open>A declined charge whose \<open>outcome\<close> is \<open>null\<close>.\<close>

definition charge_failed_no_outcome_event :: stripe_event where
  "charge_failed_no_outcome_event =
     \<lparr>ev_id = ''evt_7'', ev_type = ''charge.failed'',
      ev_data = (ev_data charge_failed_event)\<lparr>outcome := Null\<rparr>\<rparr>"

text \<open>A store whose event log has the charge of the subscription and the declined charge.\<close>

definition store_logged :: store where
  "store_logged =
     store0\<lparr>eventLogs :=
       [\<lparr>l_id = ''evt_2'', l_churchId = ''church1'', l_customerId = Val ''cus_1'',
         l_provider = ''Stripe'', l_eventType = ''charge.succeeded'',
         l_status = Val ''succeeded'', l_message = Val ''Payment complete.'',
         l_created = Num 1600000000000\<rparr>,
        \<lparr>l_id = ''evt_3'', l_churchId = ''church1'', l_customerId = Val ''cus_1'',
         l_provider = ''Stripe'', l_eventType = ''charge.failed'', l_status = Val ''failed'',
         l_message = Val ''Your card was declined. The bank declined the charge.'',
         l_created = Num 1600000000000\<rparr>]\<rparr>"

definition subscribe0 :: subscribe_body where
  "subscribe0 =
     \<lparr>sb_id = Val ''pm_1'', sb_amount = Val 2500, sb_customerId = Val ''cus_1'',
      sb_type = Val ''card'', sb_billing_cycle_anchor = Undefined,
      sb_proration_behavior = Undefined, sb_interval = Val ''month'', sb_funds = fundsA,
      sb_person = Val \<lparr>p_id = Val ''person1''\<rparr>\<rparr>"

text \<open>A request to /donate/log that carries a donation and a fund, and nothing else.\<close>

definition log0 :: log_request where
  "log0 =
     \<lparr>lr_headers = [],
      lr_donation =
        \<lparr>d_id = Undefined, d_churchId = ''church1'', d_batchId = Undefined,
         d_personId = Val ''person1'', d_amount = Num 50, d_method = Label ''Cash'',
         d_methodDetails = Undefined, d_donationDate = Num 1600000000000\<rparr>,
      lr_fundData = \<lparr>f_id = ''fundA'', f_amount = 50\<rparr>\<rparr>"

section \<open>The ledger writer\<close>

subsection \<open>Saving rows\<close>

lemma fundDonation_save_frame:
  assumes "fundDonation_save st x = (r, st')"
  shows "gateways st' = gateways st \<and> eventLogs st' = eventLogs st \<and> customers st' = customers st
       \<and> donationBatches st' = donationBatches st \<and> donations st' = donations st
       \<and> subscriptions st' = subscriptions st \<and> subscriptionFunds st' = subscriptionFunds st
       \<and> down st' = down st"
  using assms by (auto simp: fundDonation_save_def Let_def split: if_splits)

lemma promise_all_fundDonation_frame:
  "promise_all fundDonation_save st xs = (r, st') \<Longrightarrow>
     gateways st' = gateways st \<and> eventLogs st' = eventLogs st \<and> customers st' = customers st
       \<and> donationBatches st' = donationBatches st \<and> donations st' = donations st
       \<and> subscriptions st' = subscriptions st \<and> subscriptionFunds st' = subscriptionFunds st
       \<and> down st' = down st"
proof (induction xs arbitrary: st r st')
  case Nil
  then show ?case by simp
next
  case (Cons x xs)
  obtain r1 st1 where s1: "fundDonation_save st x = (r1, st1)" by (cases "fundDonation_save st x")
  obtain rs st2 where s2: "promise_all fundDonation_save st1 xs = (rs, st2)"
    by (cases "promise_all fundDonation_save st1 xs")
  from Cons.prems s1 s2 have "st' = st2" by (auto split: sum.splits)
  with Cons.IH [OF s2] fundDonation_save_frame [OF s1] show ?case by simp
qed

lemma promise_all_fundDonation_rows:
  "promise_all fundDonation_save st xs = (Inr ys, st') \<Longrightarrow>
     fundDonations st' = fundDonations st @ ys
     \<and> map (\<lambda>r. (fd_churchId r, fd_amount r, fd_donationId r, fd_fundId r)) ys
       = map (\<lambda>r. (fd_churchId r, fd_amount r, fd_donationId r, fd_fundId r)) xs"
proof (induction xs arbitrary: st ys st')
  case Nil
  then show ?case by simp
next
  case (Cons x xs)
  obtain r1 st1 where s1: "fundDonation_save st x = (r1, st1)" by (cases "fundDonation_save st x")
  obtain rs st2 where s2: "promise_all fundDonation_save st1 xs = (rs, st2)"
    by (cases "promise_all fundDonation_save st1 xs")
  from Cons.prems s1 s2 obtain y ys' where
    r1: "r1 = Inr y" and rs: "rs = Inr ys'" and ys: "ys = y # ys'" and st': "st' = st2"
    by (auto split: sum.splits)
  from s1 r1 have y: "fundDonations st1 = fundDonations st @ [y]"
    "fd_churchId y = fd_churchId x" "fd_amount y = fd_amount x"
    "fd_donationId y = fd_donationId x" "fd_fundId y = fd_fundId x"
    by (auto simp: fundDonation_save_def Let_def split: if_splits)
  from Cons.IH [OF s2 [unfolded rs]] y ys st' show ?case by simp
qed

lemma promise_all_fundDonation_up:
  "FundDonationRepo \<notin> down st \<Longrightarrow> \<exists>ys st'. promise_all fundDonation_save st xs = (Inr ys, st')"
proof (induction xs arbitrary: st)
  case Nil
  then show ?case by simp
next
  case (Cons x xs)
  obtain y st1 where s1: "fundDonation_save st x = (Inr y, st1)" and d1: "down st1 = down st"
    using Cons.prems by (auto simp: fundDonation_save_def Let_def)
  from Cons.IH [of st1] Cons.prems d1 obtain ys st2 where
    "promise_all fundDonation_save st1 xs = (Inr ys, st2)" by auto
  with s1 show ?case by simp
qed

lemma getOrCreateCurrent_frame:
  assumes "donationBatch_getOrCreateCurrent st c = (r, st')"
  shows "gateways st' = gateways st \<and> eventLogs st' = eventLogs st \<and> customers st' = customers st
       \<and> donations st' = donations st \<and> fundDonations st' = fundDonations st
       \<and> subscriptions st' = subscriptions st \<and> subscriptionFunds st' = subscriptionFunds st
       \<and> down st' = down st"
  using assms
  by (auto simp: donationBatch_getOrCreateCurrent_def Let_def split: if_splits option.splits)

lemma getOrCreateCurrent_up:
  "DonationBatchRepo \<notin> down st \<Longrightarrow> \<exists>b st'. donationBatch_getOrCreateCurrent st c = (Inr b, st')"
  by (auto simp: donationBatch_getOrCreateCurrent_def Let_def split: option.splits)

lemma donation_save_frame:
  assumes "donation_save st d = (r, st')"
  shows "gateways st' = gateways st \<and> eventLogs st' = eventLogs st \<and> customers st' = customers st
       \<and> donationBatches st' = donationBatches st \<and> fundDonations st' = fundDonations st
       \<and> subscriptions st' = subscriptions st \<and> subscriptionFunds st' = subscriptionFunds st
       \<and> down st' = down st"
  using assms by (auto simp: donation_save_def Let_def split: if_splits)

lemma donation_save_row:
  assumes "donation_save st d = (Inr row, st')"
  shows "row = d\<lparr>d_id := Val (gen_id st)\<rparr> \<and> donations st' = donations st @ [row]"
  using assms by (auto simp: donation_save_def Let_def split: if_splits)

lemma logDonation_frame:
  assumes "logDonation st d fs = (r, st')"
  shows "gateways st' = gateways st \<and> eventLogs st' = eventLogs st \<and> customers st' = customers st
       \<and> subscriptions st' = subscriptions st \<and> subscriptionFunds st' = subscriptionFunds st
       \<and> down st' = down st"
proof -
  obtain r1 st1 where s1: "donationBatch_getOrCreateCurrent st (d_churchId d) = (r1, st1)"
    by (cases "donationBatch_getOrCreateCurrent st (d_churchId d)")
  note f1 = getOrCreateCurrent_frame [OF s1]
  show ?thesis
  proof (cases r1)
    case (Inl e)
    with assms s1 f1 show ?thesis by (simp add: logDonation_def)
  next
    case (Inr batch)
    obtain r2 st2 where s2: "donation_save st1 (d\<lparr>d_batchId := Val (b_id batch)\<rparr>) = (r2, st2)"
      by (cases "donation_save st1 (d\<lparr>d_batchId := Val (b_id batch)\<rparr>)")
    note f2 = donation_save_frame [OF s2]
    show ?thesis
    proof (cases r2)
      case (Inl e)
      with assms s1 s2 f1 f2 \<open>r1 = Inr batch\<close> show ?thesis by (simp add: logDonation_def)
    next
      case (Inr donation)
      with assms s1 s2 \<open>r1 = Inr batch\<close> have
        "promise_all fundDonation_save st2
           (map (\<lambda>fund. \<lparr>fd_id = Undefined, fd_churchId = d_churchId donation,
                          fd_amount = f_amount fund, fd_donationId = d_id donation,
                          fd_fundId = f_id fund\<rparr>) fs) = (r, st')"
        by (simp add: logDonation_def)
      from promise_all_fundDonation_frame [OF this] f1 f2 show ?thesis by simp
    qed
  qed
qed

lemma logDonation_success:
  assumes "logDonation st d fs = (Inr rows, st')"
  shows "\<exists>batch st1.
           donationBatch_getOrCreateCurrent st (d_churchId d) = (Inr batch, st1)
         \<and> donations st' = donations st @ [d\<lparr>d_batchId := Val (b_id batch), d_id := Val (gen_id st1)\<rparr>]
         \<and> fundDonations st' = fundDonations st @ rows
         \<and> map (\<lambda>r. (fd_churchId r, fd_amount r, fd_donationId r, fd_fundId r)) rows
           = map (\<lambda>fund. (d_churchId d, f_amount fund, Val (gen_id st1), f_id fund)) fs"
proof -
  obtain r1 st1 where s1: "donationBatch_getOrCreateCurrent st (d_churchId d) = (r1, st1)"
    by (cases "donationBatch_getOrCreateCurrent st (d_churchId d)")
  from assms s1 obtain batch where r1: "r1 = Inr batch"
    by (cases r1) (auto simp: logDonation_def)
  obtain r2 st2 where s2: "donation_save st1 (d\<lparr>d_batchId := Val (b_id batch)\<rparr>) = (r2, st2)"
    by (cases "donation_save st1 (d\<lparr>d_batchId := Val (b_id batch)\<rparr>)")
  from assms s1 r1 s2 obtain donation where r2: "r2 = Inr donation"
    by (cases r2) (auto simp: logDonation_def)
  from assms s1 s2 r1 r2 have p:
    "promise_all fundDonation_save st2
       (map (\<lambda>fund. \<lparr>fd_id = Undefined, fd_churchId = d_churchId donation,
                      fd_amount = f_amount fund, fd_donationId = d_id donation,
                      fd_fundId = f_id fund\<rparr>) fs) = (Inr rows, st')"
    by (simp add: logDonation_def)
  note row = donation_save_row [OF s2 [unfolded r2]]
  from row have don: "donation = d\<lparr>d_batchId := Val (b_id batch), d_id := Val (gen_id st1)\<rparr>"
    by simp
  have "donations st' = donations st2"
    using promise_all_fundDonation_frame [OF p] by simp
  also have "\<dots> = donations st @ [donation]"
    using row getOrCreateCurrent_frame [OF s1] by simp
  finally have d: "donations st' = donations st @ [donation]" .
  have "fundDonations st2 = fundDonations st"
    using donation_save_frame [OF s2] getOrCreateCurrent_frame [OF s1] by simp
  with promise_all_fundDonation_rows [OF p] have
    f: "fundDonations st' = fundDonations st @ rows"
    and m: "map (\<lambda>r. (fd_churchId r, fd_amount r, fd_donationId r, fd_fundId r)) rows
           = map (\<lambda>fund. (d_churchId donation, f_amount fund, d_id donation, f_id fund)) fs"
    by (simp_all add: comp_def)
  from s1 r1 d f m don show ?thesis by simp
qed

lemma logDonation_up:
  assumes "DonationBatchRepo \<notin> down st" "DonationRepo \<notin> down st" "FundDonationRepo \<notin> down st"
  shows "\<exists>rows st'. logDonation st d fs = (Inr rows, st')"
proof -
  from getOrCreateCurrent_up [OF assms(1)] obtain batch st1 where
    s1: "donationBatch_getOrCreateCurrent st (d_churchId d) = (Inr batch, st1)" by blast
  note f1 = getOrCreateCurrent_frame [OF s1]
  with assms(2) obtain donation st2 where
    s2: "donation_save st1 (d\<lparr>d_batchId := Val (b_id batch)\<rparr>) = (Inr donation, st2)"
    by (auto simp: donation_save_def Let_def)
  from donation_save_frame [OF s2] f1 assms(3) have "FundDonationRepo \<notin> down st2" by simp
  from promise_all_fundDonation_up [OF this] s1 s2 show ?thesis
    by (simp add: logDonation_def)
qed

subsection \<open>Claim C7\<close>

text \<open>
  C7. \<open>logDonation\<close>, given a donation and a list of fund allocations, with the batch,
  donation and fund donation repositories answering: it obtains the tenant's current
  batch from \<open>getOrCreateCurrent\<close>, persists the donation stamped with that batch's id,
  persists one fund donation for each allocation, in order, with the allocation's fund
  id and amount, the donation's tenant and the generated id of the donation, and returns
  the persisted fund donations.
\<close>

theorem logDonation_contract:
  assumes up: "DonationBatchRepo \<notin> down st" "DonationRepo \<notin> down st" "FundDonationRepo \<notin> down st"
  shows "\<exists>batch st1 rows st'.
           donationBatch_getOrCreateCurrent st (d_churchId d) = (Inr batch, st1)
         \<and> logDonation st d fs = (Inr rows, st')
         \<and> donations st' = donations st @ [d\<lparr>d_batchId := Val (b_id batch), d_id := Val (gen_id st1)\<rparr>]
         \<and> fundDonations st' = fundDonations st @ rows
         \<and> map (\<lambda>r. (fd_churchId r, fd_amount r, fd_donationId r, fd_fundId r)) rows
           = map (\<lambda>fund. (d_churchId d, f_amount fund, Val (gen_id st1), f_id fund)) fs"
proof -
  from logDonation_up [OF up] obtain rows st' where l: "logDonation st d fs = (Inr rows, st')"
    by blast
  from logDonation_success [OF l] l show ?thesis by blast
qed

lemmas ledger_defs = Let_def logDonation_def donationBatch_getOrCreateCurrent_def
  donation_save_def gen_id_def string_of_nat.simps fundDonation_save_def

theorem logDonation_contract_witness:
  "DonationBatchRepo \<notin> down store0 \<and> DonationRepo \<notin> down store0 \<and> FundDonationRepo \<notin> down store0
   \<and> (\<exists>batch st1 rows st'.
           donationBatch_getOrCreateCurrent store0 (d_churchId (lr_donation log0)) = (Inr batch, st1)
         \<and> logDonation store0 (lr_donation log0) fundsA = (Inr rows, st')
         \<and> donations st' = donations store0
             @ [(lr_donation log0)\<lparr>d_batchId := Val (b_id batch), d_id := Val (gen_id st1)\<rparr>]
         \<and> fundDonations st' = fundDonations store0 @ rows
         \<and> map (\<lambda>r. (fd_churchId r, fd_amount r, fd_donationId r, fd_fundId r)) rows
           = map (\<lambda>fund. (d_churchId (lr_donation log0), f_amount fund, Val (gen_id st1), f_id fund))
               fundsA)
   \<and> fst (logDonation store0 (lr_donation log0) fundsA)
       = Inr [\<lparr>fd_id = Val ''3'', fd_churchId = ''church1'', fd_amount = 10,
               fd_donationId = Val ''2'', fd_fundId = ''fundA''\<rparr>,
              \<lparr>fd_id = Val ''4'', fd_churchId = ''church1'', fd_amount = 15,
               fd_donationId = Val ''2'', fd_fundId = ''fundB''\<rparr>]"
proof -
  have up: "DonationBatchRepo \<notin> down store0" "DonationRepo \<notin> down store0"
    "FundDonationRepo \<notin> down store0"
    by (simp_all add: store0_def)
  have run: "fst (logDonation store0 (lr_donation log0) fundsA)
       = Inr [\<lparr>fd_id = Val ''3'', fd_churchId = ''church1'', fd_amount = 10,
               fd_donationId = Val ''2'', fd_fundId = ''fundA''\<rparr>,
              \<lparr>fd_id = Val ''4'', fd_churchId = ''church1'', fd_amount = 15,
               fd_donationId = Val ''2'', fd_fundId = ''fundB''\<rparr>]"
    by (simp add: ledger_defs store0_def log0_def fundsA_def)
  from up run logDonation_contract [OF up, of "lr_donation log0" fundsA] show ?thesis by blast
qed

section \<open>The webhook\<close>

subsection \<open>The steps of the body\<close>

lemma logEvent_existing:
  "eventLog_load st c (ev_id ev) = Inr (Some l) \<Longrightarrow> logEvent st c ev date = (Inr (), st)"
  by (simp add: logEvent_def)

lemma logEvent_new:
  assumes "eventLog_load st c (ev_id ev) = Inr None" "eventMessage (ev_data ev) = Inr msg"
  shows "logEvent st c ev date =
           (Inr (), st\<lparr>eventLogs := eventLogs st
              @ [\<lparr>l_id = ev_id ev, l_churchId = c, l_customerId = customer (ev_data ev),
                  l_provider = ''Stripe'', l_eventType = ev_type ev,
                  l_status = status (ev_data ev), l_message = msg, l_created = date\<rparr>]\<rparr>)"
  using assms by (auto simp: logEvent_def eventLog_load_def eventLog_create_def split: if_splits)

lemma logEvent_error:
  "logEvent st c ev date = (Inl e, st') \<Longrightarrow> st' = st"
  by (auto simp: logEvent_def eventLog_create_def split: sum.splits option.splits if_splits)

lemma logEvent_frame:
  assumes "logEvent st c ev date = (r, st')"
  shows "gateways st' = gateways st \<and> customers st' = customers st
       \<and> donationBatches st' = donationBatches st \<and> donations st' = donations st
       \<and> fundDonations st' = fundDonations st
       \<and> subscriptions st' = subscriptions st \<and> subscriptionFunds st' = subscriptionFunds st
       \<and> nextId st' = nextId st \<and> down st' = down st"
  using assms
  by (auto simp: logEvent_def eventLog_create_def split: sum.splits option.splits if_splits)


lemma logEvent_new_message:
  assumes "eventLog_load st c (ev_id ev) = Inr None" "logEvent st c ev date = (Inr u, st')"
  shows "\<exists>msg. eventMessage (ev_data ev) = Inr msg"
  using assms by (auto simp: logEvent_def split: sum.splits)

lemma logDonation_parsed_success:
  assumes "logDonation_parsed st d pf = (Inr rows, st')"
  shows "\<exists>fs. pf = FundArray fs \<and> logDonation st d fs = (Inr rows, st')"
proof (cases pf)
  case (FundArray fs)
  with assms show ?thesis by (simp add: logDonation_parsed_def)
next
  case NotAnArray
  with assms show ?thesis
    by (auto simp: logDonation_parsed_def split: prod.splits sum.splits)
qed

lemma logDonation_parsed_frame:
  assumes "logDonation_parsed st d pf = (r, st')"
  shows "gateways st' = gateways st \<and> eventLogs st' = eventLogs st \<and> customers st' = customers st
       \<and> subscriptions st' = subscriptions st \<and> subscriptionFunds st' = subscriptionFunds st
       \<and> down st' = down st"
proof (cases pf)
  case (FundArray fs)
  with assms have "logDonation st d fs = (r, st')" by (simp add: logDonation_parsed_def)
  then show ?thesis by (rule logDonation_frame)
next
  case NotAnArray
  obtain r1 st1 where s1: "donationBatch_getOrCreateCurrent st (d_churchId d) = (r1, st1)"
    by (cases "donationBatch_getOrCreateCurrent st (d_churchId d)")
  note f1 = getOrCreateCurrent_frame [OF s1]
  show ?thesis
  proof (cases r1)
    case (Inl e)
    with assms NotAnArray s1 f1 show ?thesis by (simp add: logDonation_parsed_def)
  next
    case (Inr batch)
    obtain r2 st2 where s2: "donation_save st1 (d\<lparr>d_batchId := Val (b_id batch)\<rparr>) = (r2, st2)"
      by (cases "donation_save st1 (d\<lparr>d_batchId := Val (b_id batch)\<rparr>)")
    from assms NotAnArray s1 Inr s2 have "st' = st2"
      by (auto simp: logDonation_parsed_def split: sum.splits)
    with donation_save_frame [OF s2] f1 show ?thesis by simp
  qed
qed

lemma logEventDonation_frame:
  assumes "logEventDonation env st c d m md date = (r, st')"
  shows "gateways st' = gateways st \<and> eventLogs st' = eventLogs st \<and> customers st' = customers st
       \<and> subscriptions st' = subscriptions st \<and> subscriptionFunds st' = subscriptionFunds st
       \<and> down st' = down st"
proof (cases "\<exists>cu mdv pf. customer_load st c (customer d) = Inr (Some cu) \<and> metadata d = Val mdv
           \<and> resolveFunds env st c mdv (subscription d) = Inr pf")
  case True
  then obtain cu mdv pf where h: "customer_load st c (customer d) = Inr (Some cu)"
    "metadata d = Val mdv" "resolveFunds env st c mdv (subscription d) = Inr pf" by blast
  let ?don = "\<lparr>d_id = Undefined, d_churchId = c, d_batchId = Undefined,
                d_personId = cu_personId cu, d_amount = donationAmount d, d_method = m,
                d_methodDetails = md, d_donationDate = date\<rparr>"
  obtain r1 st1 where l: "logDonation_parsed st ?don pf = (r1, st1)"
    by (cases "logDonation_parsed st ?don pf")
  from assms h l have "st' = st1" by (auto simp: logEventDonation_def split: sum.splits)
  with logDonation_parsed_frame [OF l] show ?thesis by simp
next
  case False
  with assms have "st' = st"
    by (auto simp: logEventDonation_def split: sum.splits option.splits js.splits)
  then show ?thesis by simp
qed

lemma logEventDonation_success:
  assumes "logEventDonation env st c d m md date = (Inr r, st')"
  shows "\<exists>cu mdv fs rows.
           customer_load st c (customer d) = Inr (Some cu) \<and> metadata d = Val mdv
         \<and> resolveFunds env st c mdv (subscription d) = Inr (FundArray fs)
         \<and> logDonation st \<lparr>d_id = Undefined, d_churchId = c, d_batchId = Undefined,
                d_personId = cu_personId cu, d_amount = donationAmount d, d_method = m,
                d_methodDetails = md, d_donationDate = date\<rparr> fs = (Inr rows, st')
         \<and> r = Done ()"
  using assms
  by (auto simp: logEventDonation_def
      split: sum.splits option.splits js.splits prod.splits dest!: logDonation_parsed_success)

lemma process_elim:
  assumes "process env st c k ev = (r, st')"
  obtains (ignored) "ev_type ev = ''charge.succeeded''" "subscriptionEvent (ev_data ev)"
      "r = Inr (Json 200)" "st' = st"
  | (failed) e where "r = Inl e" "st' = st"
  | (logged) pmd m md st1 where
      "\<not> (ev_type ev = ''charge.succeeded'' \<and> subscriptionEvent (ev_data ev))"
      "resolvePaymentMethodDetails env k (ev_data ev) = Inr pmd"
      "extractPaymentDetails pmd = Inr (m, md)"
      "logEvent st c ev (new_Date (js_mul (to_number (created (ev_data ev))) 1000)) = (Inr (), st1)"
      "if ev_type ev = ''charge.succeeded'' \<or> ev_type ev = ''invoice.paid''
       then logEventDonation env st1 c (ev_data ev) m md
              (new_Date (js_mul (to_number (created (ev_data ev))) 1000)) = (r, st')
       else r = Inr (Done ()) \<and> st' = st1"
proof (cases "ev_type ev = ''charge.succeeded'' \<and> subscriptionEvent (ev_data ev)")
  case True
  with assms have "r = Inr (Json 200)" "st' = st" by (auto simp: process_def Let_def)
  with True show ?thesis by (auto intro: ignored)
next
  case ns: False
  show ?thesis
  proof (cases "resolvePaymentMethodDetails env k (ev_data ev)")
    case (Inl e)
    with assms ns have "r = Inl e" "st' = st" by (auto simp: process_def Let_def)
    then show ?thesis by (rule failed)
  next
    case res: (Inr pmd)
    show ?thesis
    proof (cases "extractPaymentDetails pmd")
      case (Inl e)
      with assms ns res have "r = Inl e" "st' = st" by (auto simp: process_def Let_def)
      then show ?thesis by (rule failed)
    next
      case (Inr p)
      obtain m md where p: "p = (m, md)" by (cases p)
      obtain r1 st1 where
        le: "logEvent st c ev (new_Date (js_mul (to_number (created (ev_data ev))) 1000)) = (r1, st1)"
        by (cases "logEvent st c ev (new_Date (js_mul (to_number (created (ev_data ev))) 1000))")
      show ?thesis
      proof (cases r1)
        case (Inl e)
        with le logEvent_error have "st1 = st" by blast
        with assms ns res Inr p le Inl have "r = Inl e" "st' = st"
          by (auto simp: process_def Let_def)
        then show ?thesis by (rule failed)
      next
        case r1: (Inr u)
        from assms ns res Inr p le r1 have d:
          "if ev_type ev = ''charge.succeeded'' \<or> ev_type ev = ''invoice.paid''
           then logEventDonation env st1 c (ev_data ev) m md
                  (new_Date (js_mul (to_number (created (ev_data ev))) 1000)) = (r, st')
           else r = Inr (Done ()) \<and> st' = st1"
          by (auto simp: process_def Let_def)
        from le r1 have l:
          "logEvent st c ev (new_Date (js_mul (to_number (created (ev_data ev))) 1000)) = (Inr (), st1)"
          by simp
        from Inr p have x: "extractPaymentDetails pmd = Inr (m, md)" by simp
        show ?thesis by (rule logged [OF ns res x l d])
      qed
    qed
  qed
qed

lemma init_process:
  "authenticate env st req = Inr (c, k, ev) \<Longrightarrow> init env st req = process env st c k ev"
  by (simp add: init_def)


lemma resolveFunds_cong:
  "subscriptionFunds st' = subscriptionFunds st \<Longrightarrow> down st' = down st \<Longrightarrow>
     resolveFunds env st' c md sid = resolveFunds env st c md sid"
  by (simp add: resolveFunds_def subscriptionFund_loadBySubscriptionId_def)

text \<open>
  What a \<open>charge.succeeded\<close> or \<open>invoice.paid\<close> event that is handled to its end has
  written: the event log is as \<open>logEvent\<close> left it, there is one more donation, of the
  amount of line 72, and one more fund donation for each fund of line 75, with the fund's
  id and amount and the id of that donation.
\<close>

lemma process_donation:
  assumes p: "process env st c k ev = (Inr r, st')"
      and ty: "ev_type ev = ''invoice.paid''
               \<or> ev_type ev = ''charge.succeeded'' \<and> \<not> subscriptionEvent (ev_data ev)"
  shows "\<exists>st1 d mdv fs rows.
           logEvent st c ev (new_Date (js_mul (to_number (created (ev_data ev))) 1000))
             = (Inr (), st1)
         \<and> r = Done () \<and> eventLogs st' = eventLogs st1
         \<and> metadata (ev_data ev) = Val mdv
         \<and> resolveFunds env st c mdv (subscription (ev_data ev)) = Inr (FundArray fs)
         \<and> donations st' = donations st @ [d]
         \<and> d_churchId d = c \<and> d_amount d = donationAmount (ev_data ev)
         \<and> fundDonations st' = fundDonations st @ rows
         \<and> map (\<lambda>r. (fd_fundId r, fd_amount r, fd_donationId r)) rows
             = map (\<lambda>fund. (f_id fund, f_amount fund, d_id d)) fs"
  using p
proof (cases rule: process_elim)
  case ignored
  with ty show ?thesis by simp
next
  case (failed e)
  then show ?thesis by simp
next
  case (logged pmd m md st1)
  let ?date = "new_Date (js_mul (to_number (created (ev_data ev))) 1000)"
  note f1 = logEvent_frame [OF logged(4)]
  from logged(5) ty have led:
    "logEventDonation env st1 c (ev_data ev) m md ?date = (Inr r, st')" by auto
  from logEventDonation_success [OF led] obtain cu :: customer and mdv fs rows where
    mv: "metadata (ev_data ev) = Val mdv"
    and rf1: "resolveFunds env st1 c mdv (subscription (ev_data ev)) = Inr (FundArray fs)"
    and ld: "logDonation st1 \<lparr>d_id = Undefined, d_churchId = c, d_batchId = Undefined,
              d_personId = cu_personId cu, d_amount = donationAmount (ev_data ev), d_method = m,
              d_methodDetails = md, d_donationDate = ?date\<rparr> fs = (Inr rows, st')"
    and r: "r = Done ()"
    by (elim exE conjE) (rule that)
  let ?don = "\<lparr>d_id = Undefined, d_churchId = c, d_batchId = Undefined,
              d_personId = cu_personId cu, d_amount = donationAmount (ev_data ev), d_method = m,
              d_methodDetails = md, d_donationDate = ?date\<rparr>"
  have "resolveFunds env st1 c mdv (subscription (ev_data ev))
          = resolveFunds env st c mdv (subscription (ev_data ev))"
    using f1 by (intro resolveFunds_cong) simp_all
  with rf1 have rf: "resolveFunds env st c mdv (subscription (ev_data ev)) = Inr (FundArray fs)"
    by simp
  from logDonation_success [OF ld] obtain batch :: donationBatch and stb where
    dn: "donations st' = donations st1 @ [?don\<lparr>d_batchId := Val (b_id batch), d_id := Val (gen_id stb)\<rparr>]"
    and fd: "fundDonations st' = fundDonations st1 @ rows"
    and m: "map (\<lambda>r. (fd_churchId r, fd_amount r, fd_donationId r, fd_fundId r)) rows
           = map (\<lambda>fund. (d_churchId ?don, f_amount fund, Val (gen_id stb), f_id fund)) fs"
    by (elim exE conjE) (rule that)
  define d where "d = ?don\<lparr>d_batchId := Val (b_id batch), d_id := Val (gen_id stb)\<rparr>"
  have d: "d_churchId d = c" "d_amount d = donationAmount (ev_data ev)" "d_id d = Val (gen_id stb)"
    by (simp_all add: d_def)
  from dn f1 have dn': "donations st' = donations st @ [d]" by (simp add: d_def)
  from fd f1 have fd': "fundDonations st' = fundDonations st @ rows" by simp
  from arg_cong [OF m, of "map (\<lambda>q. (snd (snd (snd q)), fst (snd q), fst (snd (snd q))))"] d(3)
  have m': "map (\<lambda>r. (fd_fundId r, fd_amount r, fd_donationId r)) rows
             = map (\<lambda>fund. (f_id fund, f_amount fund, d_id d)) fs"
    by (simp add: comp_def)
  from logEventDonation_frame [OF led] have e: "eventLogs st' = eventLogs st1" by simp
  show ?thesis
    by (intro exI conjI) (rule logged(4) r e mv rf dn' d(1) d(2) fd' m')+
qed

subsection \<open>Unfolding the model on the example tenant\<close>

lemmas webhook_defs = init_def authenticate_def process_def gateway_loadAll_def env_of_def
  subscriptionEvent_def resolvePaymentMethodDetails_def extractPaymentDetails_def methodTypes_def
  pm_last4_def logEvent_def eventLog_load_def eventMessage_def eventLog_create_def
  logEventDonation_def logDonation_parsed_def customer_load_def resolveFunds_def subscriptionFund_loadBySubscriptionId_def
  donationAmount_def fund_of_row_def card_details_def toLowerCase_def lower_char_def

lemmas fixture_defs = store0_def store1_def gateway0_def webhook0_def fundsA_def charge_data0_def
  funds_json_def

subsection \<open>Claim C2\<close>

text \<open>
  C2, as the code has it. A verified \<open>charge.succeeded\<close> event in a subscription context
  (a subscription reference on the event, or \<open>subscription\<close> contained in its description
  whatever the case of the letters) is answered with status 200 and nothing is written:
  no donation, and no event log entry either.
\<close>

theorem subscription_charge_ignored:
  assumes "authenticate env st req = Inr (c, k, ev)"
      and "ev_type ev = ''charge.succeeded''"
      and "truthy_str (subscription (ev_data ev))
           \<or> (description (ev_data ev) = Val s \<and> includes_str (toLowerCase s) ''subscription'')"
  shows "init env st req = (Inr (Json 200), st)"
  using assms by (auto simp: init_def process_def subscriptionEvent_def)

theorem subscription_charge_ignored_witness:
  "authenticate (env_of subscription_charge_event) store0 webhook0
     = Inr (''church1'', ''sk_test'', subscription_charge_event)
   \<and> ev_type subscription_charge_event = ''charge.succeeded''
   \<and> description (ev_data subscription_charge_event) = Val ''Subscription creation''
   \<and> includes_str (toLowerCase ''Subscription creation'') ''subscription''
   \<and> init (env_of subscription_charge_event) store0 webhook0 = (Inr (Json 200), store0)"
proof -
  have a: "authenticate (env_of subscription_charge_event) store0 webhook0
     = Inr (''church1'', ''sk_test'', subscription_charge_event)"
    by (simp add: authenticate_def gateway_loadAll_def env_of_def fixture_defs)
  have t: "ev_type subscription_charge_event = ''charge.succeeded''"
    by (simp add: subscription_charge_event_def)
  have d: "description (ev_data subscription_charge_event) = Val ''Subscription creation''"
    by (simp add: subscription_charge_event_def)
  have i: "includes_str (toLowerCase ''Subscription creation'') ''subscription''"
    by (simp add: toLowerCase_def lower_char_def)
  from d i have "truthy_str (subscription (ev_data subscription_charge_event))
       \<or> (description (ev_data subscription_charge_event) = Val ''Subscription creation''
          \<and> includes_str (toLowerCase ''Subscription creation'') ''subscription'')"
    by simp
  from a t d i subscription_charge_ignored [OF a t this] show ?thesis by simp
qed

text \<open>
  The claim as stated asks for an event log entry for such an event. The charge of a
  subscription leaves the event log empty.
\<close>

theorem subscription_charge_not_logged:
  "ev_type subscription_charge_event = ''charge.succeeded''
   \<and> subscriptionEvent (ev_data subscription_charge_event)
   \<and> fst (init (env_of subscription_charge_event) store0 webhook0) = Inr (Json 200)
   \<and> eventLogs (snd (init (env_of subscription_charge_event) store0 webhook0)) = []"
  by (simp add: webhook_defs fixture_defs subscription_charge_event_def)

subsection \<open>Claim C1\<close>

text \<open>
  C1, as the code has it. When the tenant's event log already has an entry for the id of a
  verified event, the webhook writes no second entry. The donation is not guarded by the
  log. A \<open>charge.succeeded\<close> event in a subscription context is answered with status 200
  and nothing is written, and an event of another type than \<open>charge.succeeded\<close> and
  \<open>invoice.paid\<close> adds no donation and no fund donation. Every other delivery of a
  \<open>charge.succeeded\<close> or \<open>invoice.paid\<close> event that does not raise runs to its end and
  adds, once more, one donation of the event's amount and one fund donation, of that
  donation, for each fund of the event's fund split.
\<close>

theorem existing_event_not_logged_again:
  assumes auth: "authenticate env st req = Inr (c, k, ev)"
      and ex: "eventLog_load st c (ev_id ev) = Inr (Some l)"
  shows "eventLogs (snd (init env st req)) = eventLogs st
       \<and> (ev_type ev = ''charge.succeeded'' \<and> subscriptionEvent (ev_data ev) \<longrightarrow>
            init env st req = (Inr (Json 200), st))
       \<and> (ev_type ev \<noteq> ''charge.succeeded'' \<and> ev_type ev \<noteq> ''invoice.paid'' \<longrightarrow>
            donations (snd (init env st req)) = donations st
            \<and> fundDonations (snd (init env st req)) = fundDonations st)
       \<and> ((ev_type ev = ''invoice.paid''
             \<or> ev_type ev = ''charge.succeeded'' \<and> \<not> subscriptionEvent (ev_data ev))
            \<and> fst (init env st req) = Inr r \<longrightarrow>
          r = Done ()
          \<and> (\<exists>d mdv fs rows.
                metadata (ev_data ev) = Val mdv
              \<and> resolveFunds env st c mdv (subscription (ev_data ev)) = Inr (FundArray fs)
              \<and> donations (snd (init env st req)) = donations st @ [d]
              \<and> d_churchId d = c \<and> d_amount d = donationAmount (ev_data ev)
              \<and> fundDonations (snd (init env st req)) = fundDonations st @ rows
              \<and> map (\<lambda>r. (fd_fundId r, fd_amount r, fd_donationId r)) rows
                  = map (\<lambda>fund. (f_id fund, f_amount fund, d_id d)) fs))"
proof -
  let ?date = "new_Date (js_mul (to_number (created (ev_data ev))) 1000)"
  obtain r' st' where p: "process env st c k ev = (r', st')" by (cases "process env st c k ev")
  with auth have i: "init env st req = (r', st')" by (simp add: init_process)
  note le = logEvent_existing [OF ex, of ?date]
  have one: "eventLogs st' = eventLogs st"
    using p
  proof (cases rule: process_elim)
    case ignored
    then show ?thesis by simp
  next
    case (failed e)
    then show ?thesis by simp
  next
    case (logged pmd m md st1)
    from logged(4) le have st1: "st1 = st" by simp
    show ?thesis
    proof (cases "ev_type ev = ''charge.succeeded'' \<or> ev_type ev = ''invoice.paid''")
      case True
      with logged(5) have "logEventDonation env st1 c (ev_data ev) m md ?date = (r', st')"
        by simp
      from logEventDonation_frame [OF this] st1 show ?thesis by simp
    next
      case False
      with logged(5) st1 show ?thesis by simp
    qed
  qed
  have two: "init env st req = (Inr (Json 200), st)"
    if "ev_type ev = ''charge.succeeded'' \<and> subscriptionEvent (ev_data ev)"
    using that auth by (simp add: init_def process_def)
  have three: "donations st' = donations st \<and> fundDonations st' = fundDonations st"
    if ty: "ev_type ev \<noteq> ''charge.succeeded'' \<and> ev_type ev \<noteq> ''invoice.paid''"
    using p
  proof (cases rule: process_elim)
    case ignored
    then show ?thesis by simp
  next
    case (failed e)
    then show ?thesis by simp
  next
    case (logged pmd m md st1)
    with ty have "st' = st1" by simp
    with logEvent_frame [OF logged(4)] show ?thesis by simp
  qed
  have four: "r = Done ()
          \<and> (\<exists>d mdv fs rows.
                metadata (ev_data ev) = Val mdv
              \<and> resolveFunds env st c mdv (subscription (ev_data ev)) = Inr (FundArray fs)
              \<and> donations st' = donations st @ [d]
              \<and> d_churchId d = c \<and> d_amount d = donationAmount (ev_data ev)
              \<and> fundDonations st' = fundDonations st @ rows
              \<and> map (\<lambda>r. (fd_fundId r, fd_amount r, fd_donationId r)) rows
                  = map (\<lambda>fund. (f_id fund, f_amount fund, d_id d)) fs)"
    if h: "(ev_type ev = ''invoice.paid''
             \<or> ev_type ev = ''charge.succeeded'' \<and> \<not> subscriptionEvent (ev_data ev))
            \<and> r' = Inr r"
  proof -
    from h p have p': "process env st c k ev = (Inr r, st')" by simp
    from h have ty: "ev_type ev = ''invoice.paid''
             \<or> ev_type ev = ''charge.succeeded'' \<and> \<not> subscriptionEvent (ev_data ev)" by simp
    from process_donation [OF p' ty] show ?thesis by blast
  qed
  from one two three four i show ?thesis by simp
qed

theorem existing_event_not_logged_again_witness:
  "authenticate (env_of invoice_paid_event) (snd (init (env_of invoice_paid_event) store1 webhook0))
       webhook0
     = Inr (''church1'', ''sk_test'', invoice_paid_event)
   \<and> eventLog_load (snd (init (env_of invoice_paid_event) store1 webhook0)) ''church1''
        (ev_id invoice_paid_event) =
        Inr (Some \<lparr>l_id = ''evt_1'', l_churchId = ''church1'', l_customerId = Val ''cus_1'',
              l_provider = ''Stripe'', l_eventType = ''invoice.paid'', l_status = Val ''paid'',
              l_message = Val ''subscription_cycle paid'', l_created = Num 1600000000000\<rparr>)
   \<and> ev_type invoice_paid_event = ''invoice.paid''
   \<and> fst (init (env_of invoice_paid_event)
        (snd (init (env_of invoice_paid_event) store1 webhook0)) webhook0) = Inr (Done ())
   \<and> eventLogs (snd (init (env_of invoice_paid_event)
        (snd (init (env_of invoice_paid_event) store1 webhook0)) webhook0))
      = eventLogs (snd (init (env_of invoice_paid_event) store1 webhook0))
   \<and> (\<exists>d mdv fs rows.
          metadata (ev_data invoice_paid_event) = Val mdv
        \<and> resolveFunds (env_of invoice_paid_event)
             (snd (init (env_of invoice_paid_event) store1 webhook0)) ''church1'' mdv
             (subscription (ev_data invoice_paid_event)) = Inr (FundArray fs)
        \<and> donations (snd (init (env_of invoice_paid_event)
              (snd (init (env_of invoice_paid_event) store1 webhook0)) webhook0))
            = donations (snd (init (env_of invoice_paid_event) store1 webhook0)) @ [d]
        \<and> d_churchId d = ''church1'' \<and> d_amount d = donationAmount (ev_data invoice_paid_event)
        \<and> fundDonations (snd (init (env_of invoice_paid_event)
              (snd (init (env_of invoice_paid_event) store1 webhook0)) webhook0))
            = fundDonations (snd (init (env_of invoice_paid_event) store1 webhook0)) @ rows
        \<and> map (\<lambda>r. (fd_fundId r, fd_amount r, fd_donationId r)) rows
            = map (\<lambda>fund. (f_id fund, f_amount fund, d_id d)) fs)
   \<and> authenticate (env_of subscription_charge_event) store_logged webhook0
     = Inr (''church1'', ''sk_test'', subscription_charge_event)
   \<and> eventLog_load store_logged ''church1'' (ev_id subscription_charge_event)
     = Inr (Some (hd (eventLogs store_logged)))
   \<and> ev_type subscription_charge_event = ''charge.succeeded''
   \<and> subscriptionEvent (ev_data subscription_charge_event)
   \<and> init (env_of subscription_charge_event) store_logged webhook0
     = (Inr (Json 200), store_logged)
   \<and> authenticate (env_of charge_failed_event) store_logged webhook0
     = Inr (''church1'', ''sk_test'', charge_failed_event)
   \<and> eventLog_load store_logged ''church1'' (ev_id charge_failed_event)
     = Inr (Some (last (eventLogs store_logged)))
   \<and> ev_type charge_failed_event \<noteq> ''charge.succeeded''
   \<and> ev_type charge_failed_event \<noteq> ''invoice.paid''
   \<and> donations (snd (init (env_of charge_failed_event) store_logged webhook0))
     = donations store_logged
   \<and> fundDonations (snd (init (env_of charge_failed_event) store_logged webhook0))
     = fundDonations store_logged"
proof -
  let ?E = "env_of invoice_paid_event"
  let ?st = "snd (init ?E store1 webhook0)"
  have a: "authenticate ?E ?st webhook0 = Inr (''church1'', ''sk_test'', invoice_paid_event)"
    by (simp add: webhook_defs fixture_defs ledger_defs invoice_paid_event_def)
  have e: "eventLog_load ?st ''church1'' (ev_id invoice_paid_event) =
        Inr (Some \<lparr>l_id = ''evt_1'', l_churchId = ''church1'', l_customerId = Val ''cus_1'',
              l_provider = ''Stripe'', l_eventType = ''invoice.paid'', l_status = Val ''paid'',
              l_message = Val ''subscription_cycle paid'', l_created = Num 1600000000000\<rparr>)"
    by (simp add: webhook_defs fixture_defs ledger_defs invoice_paid_event_def)
  have f: "fst (init ?E ?st webhook0) = Inr (Done ())"
    by (simp add: webhook_defs fixture_defs ledger_defs invoice_paid_event_def)
  have t: "ev_type invoice_paid_event = ''invoice.paid''"
    by (simp add: invoice_paid_event_def)
  note one = existing_event_not_logged_again [OF a e, where r = "Done ()"]
  let ?E2 = "env_of subscription_charge_event"
  have a2: "authenticate ?E2 store_logged webhook0
              = Inr (''church1'', ''sk_test'', subscription_charge_event)"
    by (simp add: authenticate_def gateway_loadAll_def env_of_def fixture_defs store_logged_def)
  have e2: "eventLog_load store_logged ''church1'' (ev_id subscription_charge_event)
              = Inr (Some (hd (eventLogs store_logged)))"
    by (simp add: eventLog_load_def store_logged_def store0_def subscription_charge_event_def)
  have t2: "ev_type subscription_charge_event = ''charge.succeeded''"
    and s2: "subscriptionEvent (ev_data subscription_charge_event)"
    by (simp_all add: subscription_charge_event_def subscriptionEvent_def charge_data0_def
        toLowerCase_def lower_char_def)
  note two = existing_event_not_logged_again [OF a2 e2]
  let ?E3 = "env_of charge_failed_event"
  have a3: "authenticate ?E3 store_logged webhook0
              = Inr (''church1'', ''sk_test'', charge_failed_event)"
    by (simp add: authenticate_def gateway_loadAll_def env_of_def fixture_defs store_logged_def)
  have e3: "eventLog_load store_logged ''church1'' (ev_id charge_failed_event)
              = Inr (Some (last (eventLogs store_logged)))"
    by (simp add: eventLog_load_def store_logged_def store0_def charge_failed_event_def)
  have t3: "ev_type charge_failed_event \<noteq> ''charge.succeeded''"
    "ev_type charge_failed_event \<noteq> ''invoice.paid''"
    by (simp_all add: charge_failed_event_def)
  note three = existing_event_not_logged_again [OF a3 e3]
  from one t f have o1: "eventLogs (snd (init ?E ?st webhook0)) = eventLogs ?st"
    and o2: "\<exists>d mdv fs rows.
          metadata (ev_data invoice_paid_event) = Val mdv
        \<and> resolveFunds ?E ?st ''church1'' mdv (subscription (ev_data invoice_paid_event))
            = Inr (FundArray fs)
        \<and> donations (snd (init ?E ?st webhook0)) = donations ?st @ [d]
        \<and> d_churchId d = ''church1'' \<and> d_amount d = donationAmount (ev_data invoice_paid_event)
        \<and> fundDonations (snd (init ?E ?st webhook0)) = fundDonations ?st @ rows
        \<and> map (\<lambda>r. (fd_fundId r, fd_amount r, fd_donationId r)) rows
            = map (\<lambda>fund. (f_id fund, f_amount fund, d_id d)) fs"
    by blast+
  from two t2 s2 have w2: "init ?E2 store_logged webhook0 = (Inr (Json 200), store_logged)"
    by blast
  from three t3 have w3: "donations (snd (init ?E3 store_logged webhook0)) = donations store_logged"
    "fundDonations (snd (init ?E3 store_logged webhook0)) = fundDonations store_logged"
    by blast+
  show ?thesis
    by (intro conjI) (rule a e t f o1 o2 a2 e2 t2 s2 w2 a3 e3 t3 w3)+
qed

text \<open>
  The claim as stated asks that the second delivery add no donation and no fund donation.
  After the first delivery of the \<open>invoice.paid\<close> event the log has its entry and there
  is one donation; after the second there are two donations and four fund donations.
\<close>

theorem redelivered_event_donates_again:
  "map l_id (eventLogs (snd (init (env_of invoice_paid_event) store1 webhook0))) = [''evt_1'']
   \<and> map d_amount (donations (snd (init (env_of invoice_paid_event) store1 webhook0))) = [Num 25]
   \<and> map d_amount (donations (snd (init (env_of invoice_paid_event)
        (snd (init (env_of invoice_paid_event) store1 webhook0)) webhook0))) = [Num 25, Num 25]
   \<and> map fd_amount (fundDonations (snd (init (env_of invoice_paid_event)
        (snd (init (env_of invoice_paid_event) store1 webhook0)) webhook0))) = [10, 15, 10, 15]"
  by (simp add: webhook_defs fixture_defs ledger_defs invoice_paid_event_def)

subsection \<open>Claim C3\<close>

text \<open>
  C3, as the code has it. A verified \<open>invoice.paid\<close> event, or \<open>charge.succeeded\<close> event
  outside a subscription context, that is not logged yet and whose handling does not
  raise adds one event log entry and one donation. The message of the entry is the one of
  lines 64 and 65, \<open>billing_reason + ' ' + status\<close> when there is a billing reason. The
  amount of the donation is \<open>(amount || amount_paid) / 100\<close>: the \<open>amount\<close> of the event
  when that is a number other than zero, else its \<open>amount_paid\<close>, whatever the type of
  the event. So an \<open>invoice.paid\<close> event without an \<open>amount\<close> (or with amount zero), with
  \<open>amount_paid = 2500\<close>, \<open>billing_reason = "subscription_cycle"\<close> and \<open>status = "paid"\<close>
  gives a donation of 25 and the message \<open>subscription_cycle paid\<close>.
\<close>

theorem donation_amount_and_message:
  assumes auth: "authenticate env st req = Inr (c, k, ev)"
      and ty: "ev_type ev = ''invoice.paid''
               \<or> ev_type ev = ''charge.succeeded'' \<and> \<not> subscriptionEvent (ev_data ev)"
      and new: "eventLog_load st c (ev_id ev) = Inr None"
      and ok: "fst (init env st req) = Inr r"
  shows "\<exists>l d. eventLogs (snd (init env st req)) = eventLogs st @ [l]
             \<and> l_id l = ev_id ev \<and> l_churchId l = c
             \<and> eventMessage (ev_data ev) = Inr (l_message l)
             \<and> (truthy_str (billing_reason (ev_data ev)) \<longrightarrow>
                  l_message l = Val (js_str (billing_reason (ev_data ev)) @ '' ''
                                      @ js_str (status (ev_data ev))))
             \<and> donations (snd (init env st req)) = donations st @ [d]
             \<and> d_churchId d = c
             \<and> d_amount d =
                 js_div (to_number (if truthy_num (amount (ev_data ev)) then amount (ev_data ev)
                                    else amount_paid (ev_data ev))) 100
             \<and> (\<not> truthy_num (amount (ev_data ev)) \<and> amount_paid (ev_data ev) = Val 2500
                  \<and> billing_reason (ev_data ev) = Val ''subscription_cycle''
                  \<and> status (ev_data ev) = Val ''paid'' \<longrightarrow>
                d_amount d = Num 25 \<and> l_message l = Val ''subscription_cycle paid'')"
proof -
  let ?date = "new_Date (js_mul (to_number (created (ev_data ev))) 1000)"
  obtain r' st' where p: "process env st c k ev = (r', st')" by (cases "process env st c k ev")
  with auth have i: "init env st req = (r', st')" by (simp add: init_process)
  with ok p have p': "process env st c k ev = (Inr r, st')" by simp
  from process_donation [OF p' ty] obtain st1 d where
    le: "logEvent st c ev ?date = (Inr (), st1)"
    and e: "eventLogs st' = eventLogs st1"
    and dn: "donations st' = donations st @ [d]"
    and dc: "d_churchId d = c"
    and da: "d_amount d = donationAmount (ev_data ev)"
    by blast
  from logEvent_new_message [OF new le] obtain msg where
    msg: "eventMessage (ev_data ev) = Inr msg" by blast
  let ?l = "\<lparr>l_id = ev_id ev, l_churchId = c, l_customerId = customer (ev_data ev),
              l_provider = ''Stripe'', l_eventType = ev_type ev,
              l_status = status (ev_data ev), l_message = msg, l_created = ?date\<rparr>"
  from le logEvent_new [OF new msg, of ?date] have
    "st1 = st\<lparr>eventLogs := eventLogs st @ [?l]\<rparr>" by simp
  then have "eventLogs st1 = eventLogs st @ [?l]" by simp
  with e have el: "eventLogs st' = eventLogs st @ [?l]" by simp
  have m1: "msg = Val (js_str (billing_reason (ev_data ev)) @ '' '' @ js_str (status (ev_data ev)))"
    if "truthy_str (billing_reason (ev_data ev))"
    using that msg by (simp add: eventMessage_def)
  have a1: "d_amount d =
                 js_div (to_number (if truthy_num (amount (ev_data ev)) then amount (ev_data ev)
                                    else amount_paid (ev_data ev))) 100"
    using da by (simp add: donationAmount_def)
  have inst: "d_amount d = Num 25 \<and> msg = Val ''subscription_cycle paid''"
    if "\<not> truthy_num (amount (ev_data ev)) \<and> amount_paid (ev_data ev) = Val 2500
                  \<and> billing_reason (ev_data ev) = Val ''subscription_cycle''
                  \<and> status (ev_data ev) = Val ''paid''"
    using that a1 m1 by simp
  from el msg m1 dn dc a1 inst i show ?thesis by simp
qed

theorem donation_amount_and_message_witness:
  "authenticate (env_of invoice_paid_event) store1 webhook0
     = Inr (''church1'', ''sk_test'', invoice_paid_event)
   \<and> ev_type invoice_paid_event = ''invoice.paid''
   \<and> \<not> truthy_num (amount (ev_data invoice_paid_event))
   \<and> amount_paid (ev_data invoice_paid_event) = Val 2500
   \<and> billing_reason (ev_data invoice_paid_event) = Val ''subscription_cycle''
   \<and> status (ev_data invoice_paid_event) = Val ''paid''
   \<and> eventLog_load store1 ''church1'' (ev_id invoice_paid_event) = Inr None
   \<and> fst (init (env_of invoice_paid_event) store1 webhook0) = Inr (Done ())
   \<and> (\<exists>l d. eventLogs (snd (init (env_of invoice_paid_event) store1 webhook0))
                = eventLogs store1 @ [l]
             \<and> l_id l = ev_id invoice_paid_event \<and> l_churchId l = ''church1''
             \<and> l_message l = Val ''subscription_cycle paid''
             \<and> donations (snd (init (env_of invoice_paid_event) store1 webhook0))
                = donations store1 @ [d]
             \<and> d_churchId d = ''church1'' \<and> d_amount d = Num 25)"
proof -
  let ?E = "env_of invoice_paid_event"
  have a: "authenticate ?E store1 webhook0 = Inr (''church1'', ''sk_test'', invoice_paid_event)"
    by (simp add: authenticate_def gateway_loadAll_def env_of_def fixture_defs)
  have t: "ev_type invoice_paid_event = ''invoice.paid''
           \<or> ev_type invoice_paid_event = ''charge.succeeded''
             \<and> \<not> subscriptionEvent (ev_data invoice_paid_event)"
    and t': "ev_type invoice_paid_event = ''invoice.paid''"
    and am: "\<not> truthy_num (amount (ev_data invoice_paid_event))"
      "amount_paid (ev_data invoice_paid_event) = Val 2500"
    and br: "billing_reason (ev_data invoice_paid_event) = Val ''subscription_cycle''"
    and sta: "status (ev_data invoice_paid_event) = Val ''paid''"
    by (simp_all add: invoice_paid_event_def)
  have new: "eventLog_load store1 ''church1'' (ev_id invoice_paid_event) = Inr None"
    by (simp add: eventLog_load_def fixture_defs)
  have ok: "fst (init ?E store1 webhook0) = Inr (Done ())"
    by (simp add: webhook_defs fixture_defs ledger_defs invoice_paid_event_def)
  from donation_amount_and_message [OF a t new ok] am br sta
  have "\<exists>l d. eventLogs (snd (init ?E store1 webhook0)) = eventLogs store1 @ [l]
             \<and> l_id l = ev_id invoice_paid_event \<and> l_churchId l = ''church1''
             \<and> l_message l = Val ''subscription_cycle paid''
             \<and> donations (snd (init ?E store1 webhook0)) = donations store1 @ [d]
             \<and> d_churchId d = ''church1'' \<and> d_amount d = Num 25"
    by blast
  with a t' am br sta new ok show ?thesis by blast
qed

text \<open>
  The claim as stated takes the amount of an \<open>invoice.paid\<close> event from \<open>amount_paid\<close>. The
  webhook takes \<open>amount\<close> first, for every type of event: an \<open>invoice.paid\<close> event with
  \<open>amount_paid = 2500\<close> whose object has an \<open>amount\<close> of 999 gives a donation of 9.99.
\<close>

theorem invoice_amount_field_is_used:
  "ev_type invoice_with_amount_event = ''invoice.paid''
   \<and> amount_paid (ev_data invoice_with_amount_event) = Val 2500
   \<and> billing_reason (ev_data invoice_with_amount_event) = Val ''subscription_cycle''
   \<and> status (ev_data invoice_with_amount_event) = Val ''paid''
   \<and> fst (init (env_of invoice_with_amount_event) store1 webhook0) = Inr (Done ())
   \<and> map l_message (eventLogs (snd (init (env_of invoice_with_amount_event) store1 webhook0)))
       = [Val ''subscription_cycle paid'']
   \<and> map d_amount (donations (snd (init (env_of invoice_with_amount_event) store1 webhook0)))
       = [Num (999 / 100)]"
  by (simp add: webhook_defs fixture_defs ledger_defs invoice_with_amount_event_def
      invoice_paid_event_def)

subsection \<open>Claim C5\<close>

text \<open>
  C5, as the code has it. When the tenant has no gateway, or the decrypted private key of
  its first gateway is empty, the body returns status 401 and writes nothing. When the
  verifier rejects the signature, the body raises the verifier's error and writes
  nothing; it makes no 401 of it.
\<close>

theorem unauthenticated_webhook_writes_nothing:
  assumes "query_churchId req = Some c" and "gateway_loadAll st c = Inr gws"
  shows "(gws = [] \<longrightarrow> init env st req = (Inr (Json 401), st))
       \<and> (gws = g # rest \<and> decrypt env (g_privateKey g) = [] \<longrightarrow>
            init env st req = (Inr (Json 401), st))
       \<and> (gws = g # rest \<and> decrypt env (g_privateKey g) \<noteq> [] \<and> stripe_signature req = Some sig
            \<and> verifySignature env (decrypt env (g_privateKey g)) req sig
                 (decrypt env (g_webhookKey g)) = Inl e \<longrightarrow>
            init env st req = (Inl e, st))"
  using assms by (auto simp: init_def authenticate_def Let_def)

theorem unauthenticated_webhook_writes_nothing_witness:
  "query_churchId webhook0 = Some ''church1''
   \<and> gateway_loadAll (store0\<lparr>gateways := []\<rparr>) ''church1'' = Inr []
   \<and> init (env_of one_time_charge_event) (store0\<lparr>gateways := []\<rparr>) webhook0
       = (Inr (Json 401), store0\<lparr>gateways := []\<rparr>)
   \<and> query_churchId (webhook0\<lparr>stripe_signature := Some ''forged''\<rparr>) = Some ''church1''
   \<and> gateway_loadAll store0 ''church1'' = Inr [gateway0]
   \<and> decrypt (env_of one_time_charge_event) (g_privateKey gateway0) \<noteq> []
   \<and> stripe_signature (webhook0\<lparr>stripe_signature := Some ''forged''\<rparr>) = Some ''forged''
   \<and> verifySignature (env_of one_time_charge_event)
        (decrypt (env_of one_time_charge_event) (g_privateKey gateway0))
        (webhook0\<lparr>stripe_signature := Some ''forged''\<rparr>) ''forged''
        (decrypt (env_of one_time_charge_event) (g_webhookKey gateway0)) = Inl InvalidSignature
   \<and> init (env_of one_time_charge_event) store0 (webhook0\<lparr>stripe_signature := Some ''forged''\<rparr>)
       = (Inl InvalidSignature, store0)"
proof -
  let ?E = "env_of one_time_charge_event"
  let ?bad = "webhook0\<lparr>stripe_signature := Some ''forged''\<rparr>"
  have q: "query_churchId webhook0 = Some ''church1''" "query_churchId ?bad = Some ''church1''"
    "stripe_signature ?bad = Some ''forged''"
    by (simp_all add: webhook0_def)
  have g0: "gateway_loadAll (store0\<lparr>gateways := []\<rparr>) ''church1'' = Inr []"
    and g1: "gateway_loadAll store0 ''church1'' = Inr [gateway0]"
    by (simp_all add: gateway_loadAll_def store0_def gateway0_def)
  have k: "decrypt ?E (g_privateKey gateway0) \<noteq> []"
    by (simp add: env_of_def gateway0_def)
  have v: "verifySignature ?E (decrypt ?E (g_privateKey gateway0)) ?bad ''forged''
             (decrypt ?E (g_webhookKey gateway0)) = Inl InvalidSignature"
    by (simp add: env_of_def gateway0_def)
  from unauthenticated_webhook_writes_nothing [OF q(1) g0, where env = ?E]
  have one: "init ?E (store0\<lparr>gateways := []\<rparr>) webhook0 = (Inr (Json 401), store0\<lparr>gateways := []\<rparr>)"
    by simp
  from unauthenticated_webhook_writes_nothing
         [OF q(2) g1, where g = gateway0 and rest = "[]" and env = ?E and sig = "''forged''"
            and e = InvalidSignature] k q(3) v
  have two: "init ?E store0 ?bad = (Inl InvalidSignature, store0)"
    by simp
  from q g0 g1 k v one two show ?thesis by simp
qed

text \<open>
  The claim as stated asks for an unauthorized result when the signature is rejected. With
  a forged signature the body raises \<open>InvalidSignature\<close>.
\<close>

theorem invalid_signature_is_not_unauthorized:
  "fst (init (env_of one_time_charge_event) store0 (webhook0\<lparr>stripe_signature := Some ''forged''\<rparr>))
     = Inl InvalidSignature
   \<and> fst (init (env_of one_time_charge_event) store0 (webhook0\<lparr>stripe_signature := Some ''forged''\<rparr>))
     \<noteq> Inr (Json 401)"
  by (simp add: init_def authenticate_def gateway_loadAll_def env_of_def fixture_defs)

subsection \<open>Claim C8\<close>

text \<open>
  C8, as the code has it. A verified event whose type is neither \<open>charge.succeeded\<close> nor
  \<open>invoice.paid\<close> adds no donation and no fund donation. It is not ignored. When its
  payment details cannot be extracted the body raises and writes nothing. When they can
  and its id is in the tenant's log already, the body completes and writes nothing. When
  they can and its id is not in the log, the event is logged and the body completes if
  the message of lines 64 and 65 can be built, which is when the event has a billing
  reason or an \<open>outcome\<close> object; if not, the body raises a TypeError and writes nothing.
\<close>

theorem unrecognized_event_logged_not_donated:
  assumes auth: "authenticate env st req = Inr (c, k, ev)"
      and ty: "ev_type ev \<noteq> ''charge.succeeded''" "ev_type ev \<noteq> ''invoice.paid''"
  shows "donations (snd (init env st req)) = donations st
       \<and> fundDonations (snd (init env st req)) = fundDonations st
       \<and> (resolvePaymentMethodDetails env k (ev_data ev) = Inl e \<longrightarrow>
            init env st req = (Inl e, st))
       \<and> (resolvePaymentMethodDetails env k (ev_data ev) = Inr pmd
            \<and> extractPaymentDetails pmd = Inl e \<longrightarrow>
            init env st req = (Inl e, st))
       \<and> (resolvePaymentMethodDetails env k (ev_data ev) = Inr pmd
            \<and> extractPaymentDetails pmd = Inr (m, md)
            \<and> eventLog_load st c (ev_id ev) = Inr (Some l) \<longrightarrow>
            init env st req = (Inr (Done ()), st))
       \<and> (resolvePaymentMethodDetails env k (ev_data ev) = Inr pmd
            \<and> extractPaymentDetails pmd = Inr (m, md)
            \<and> eventLog_load st c (ev_id ev) = Inr None
            \<and> eventMessage (ev_data ev) = Inl e \<longrightarrow>
            init env st req = (Inl e, st))
       \<and> (resolvePaymentMethodDetails env k (ev_data ev) = Inr pmd
            \<and> extractPaymentDetails pmd = Inr (m, md)
            \<and> eventLog_load st c (ev_id ev) = Inr None
            \<and> eventMessage (ev_data ev) = Inr msg \<longrightarrow>
          init env st req =
            (Inr (Done ()),
             st\<lparr>eventLogs := eventLogs st
                @ [\<lparr>l_id = ev_id ev, l_churchId = c, l_customerId = customer (ev_data ev),
                    l_provider = ''Stripe'', l_eventType = ev_type ev,
                    l_status = status (ev_data ev), l_message = msg,
                    l_created = new_Date (js_mul (to_number (created (ev_data ev))) 1000)\<rparr>]\<rparr>))
       \<and> ((\<exists>msg. eventMessage (ev_data ev) = Inr msg)
            = (truthy_str (billing_reason (ev_data ev)) \<or> (\<exists>oc. outcome (ev_data ev) = Val oc)))
       \<and> (eventMessage (ev_data ev) = Inl e \<longrightarrow> e = TypeError)"
proof -
  let ?date = "new_Date (js_mul (to_number (created (ev_data ev))) 1000)"
  obtain r st' where p: "process env st c k ev = (r, st')" by (cases "process env st c k ev")
  with auth have i: "init env st req = (r, st')" by (simp add: init_process)
  from p have none: "donations st' = donations st \<and> fundDonations st' = fundDonations st"
  proof (cases rule: process_elim)
    case ignored
    then show ?thesis by simp
  next
    case (failed e)
    then show ?thesis by simp
  next
    case (logged pmd' m' md' st1)
    with ty have "st' = st1" by simp
    with logEvent_frame [OF logged(4)] show ?thesis by simp
  qed
  have x1: "init env st req = (Inl e, st)"
    if "resolvePaymentMethodDetails env k (ev_data ev) = Inl e"
    using that auth ty by (simp add: init_def process_def Let_def)
  have x2: "init env st req = (Inl e, st)"
    if "resolvePaymentMethodDetails env k (ev_data ev) = Inr pmd \<and> extractPaymentDetails pmd = Inl e"
    using that auth ty by (simp add: init_def process_def Let_def)
  have x3: "init env st req = (Inr (Done ()), st)"
    if h: "resolvePaymentMethodDetails env k (ev_data ev) = Inr pmd
            \<and> extractPaymentDetails pmd = Inr (m, md)
            \<and> eventLog_load st c (ev_id ev) = Inr (Some l)"
  proof -
    from h have "logEvent st c ev ?date = (Inr (), st)" by (simp add: logEvent_existing)
    with h auth ty show ?thesis by (simp add: init_def process_def Let_def)
  qed
  have x4: "init env st req = (Inl e, st)"
    if h: "resolvePaymentMethodDetails env k (ev_data ev) = Inr pmd
            \<and> extractPaymentDetails pmd = Inr (m, md)
            \<and> eventLog_load st c (ev_id ev) = Inr None
            \<and> eventMessage (ev_data ev) = Inl e"
  proof -
    from h have "logEvent st c ev ?date = (Inl e, st)" by (simp add: logEvent_def)
    with h auth ty show ?thesis by (simp add: init_def process_def Let_def)
  qed
  have x5: "init env st req =
            (Inr (Done ()),
             st\<lparr>eventLogs := eventLogs st
                @ [\<lparr>l_id = ev_id ev, l_churchId = c, l_customerId = customer (ev_data ev),
                    l_provider = ''Stripe'', l_eventType = ev_type ev,
                    l_status = status (ev_data ev), l_message = msg, l_created = ?date\<rparr>]\<rparr>)"
    if h: "resolvePaymentMethodDetails env k (ev_data ev) = Inr pmd
            \<and> extractPaymentDetails pmd = Inr (m, md)
            \<and> eventLog_load st c (ev_id ev) = Inr None
            \<and> eventMessage (ev_data ev) = Inr msg"
  proof -
    from h have n: "eventLog_load st c (ev_id ev) = Inr None"
      and g: "eventMessage (ev_data ev) = Inr msg" by simp_all
    from h auth ty logEvent_new [OF n g, of ?date] show ?thesis
      by (simp add: init_def process_def Let_def)
  qed
  have x6: "(\<exists>msg. eventMessage (ev_data ev) = Inr msg)
            = (truthy_str (billing_reason (ev_data ev)) \<or> (\<exists>oc. outcome (ev_data ev) = Val oc))"
    by (cases "outcome (ev_data ev)") (simp_all add: eventMessage_def)
  have x7: "e = TypeError" if "eventMessage (ev_data ev) = Inl e"
    using that by (auto simp: eventMessage_def split: if_splits js.splits)
  from none i x1 x2 x3 x4 x5 x6 x7 show ?thesis by simp
qed

theorem unrecognized_event_logged_not_donated_witness:
  "authenticate (env_of charge_failed_event) store0 webhook0
     = Inr (''church1'', ''sk_test'', charge_failed_event)
   \<and> ev_type charge_failed_event \<noteq> ''charge.succeeded''
   \<and> ev_type charge_failed_event \<noteq> ''invoice.paid''
   \<and> donations (snd (init (env_of charge_failed_event) store0 webhook0)) = donations store0
   \<and> fundDonations (snd (init (env_of charge_failed_event) store0 webhook0)) = fundDonations store0
   \<and> resolvePaymentMethodDetails (env_of charge_failed_event) ''sk_test''
        (ev_data charge_failed_event) = Inr (Val card_details)
   \<and> extractPaymentDetails (Val card_details) = Inr (Label ''Card'', Val ''4242'')
   \<and> eventLog_load store0 ''church1'' (ev_id charge_failed_event) = Inr None
   \<and> eventMessage (ev_data charge_failed_event)
       = Inr (Val ''Your card was declined. The bank declined the charge.'')
   \<and> init (env_of charge_failed_event) store0 webhook0 =
       (Inr (Done ()),
        store0\<lparr>eventLogs := eventLogs store0
           @ [\<lparr>l_id = ev_id charge_failed_event, l_churchId = ''church1'',
               l_customerId = customer (ev_data charge_failed_event),
               l_provider = ''Stripe'', l_eventType = ev_type charge_failed_event,
               l_status = status (ev_data charge_failed_event),
               l_message = Val ''Your card was declined. The bank declined the charge.'',
               l_created =
                 new_Date (js_mul (to_number (created (ev_data charge_failed_event))) 1000)\<rparr>]\<rparr>)
   \<and> authenticate (env_of charge_failed_no_outcome_event) store0 webhook0
     = Inr (''church1'', ''sk_test'', charge_failed_no_outcome_event)
   \<and> ev_type charge_failed_no_outcome_event \<noteq> ''charge.succeeded''
   \<and> ev_type charge_failed_no_outcome_event \<noteq> ''invoice.paid''
   \<and> resolvePaymentMethodDetails (env_of charge_failed_no_outcome_event) ''sk_test''
        (ev_data charge_failed_no_outcome_event) = Inr (Val card_details)
   \<and> eventLog_load store0 ''church1'' (ev_id charge_failed_no_outcome_event) = Inr None
   \<and> eventMessage (ev_data charge_failed_no_outcome_event) = Inl TypeError
   \<and> init (env_of charge_failed_no_outcome_event) store0 webhook0 = (Inl TypeError, store0)
   \<and> eventLog_load store_logged ''church1'' (ev_id charge_failed_event)
     = Inr (Some (last (eventLogs store_logged)))
   \<and> init (env_of charge_failed_event) store_logged webhook0 = (Inr (Done ()), store_logged)"
proof -
  let ?E = "env_of charge_failed_event"
  let ?E' = "env_of charge_failed_no_outcome_event"
  have a: "authenticate ?E store0 webhook0 = Inr (''church1'', ''sk_test'', charge_failed_event)"
    by (simp add: authenticate_def gateway_loadAll_def env_of_def fixture_defs)
  have t: "ev_type charge_failed_event \<noteq> ''charge.succeeded''"
    "ev_type charge_failed_event \<noteq> ''invoice.paid''"
    by (simp_all add: charge_failed_event_def)
  have r: "resolvePaymentMethodDetails ?E ''sk_test'' (ev_data charge_failed_event)
             = Inr (Val card_details)"
    by (simp add: resolvePaymentMethodDetails_def charge_failed_event_def charge_data0_def)
  have x: "extractPaymentDetails (Val card_details) = Inr (Label ''Card'', Val ''4242'')"
    by (simp add: extractPaymentDetails_def methodTypes_def pm_last4_def card_details_def)
  have n: "eventLog_load store0 ''church1'' (ev_id charge_failed_event) = Inr None"
    by (simp add: eventLog_load_def store0_def)
  have msg: "eventMessage (ev_data charge_failed_event)
       = Inr (Val ''Your card was declined. The bank declined the charge.'')"
    by (simp add: eventMessage_def charge_failed_event_def charge_data0_def)
  note one = unrecognized_event_logged_not_donated [OF a t, where pmd = "Val card_details"
      and m = "Label ''Card''" and md = "Val ''4242''"
      and msg = "Val ''Your card was declined. The bank declined the charge.''"]
  from one have w1: "donations (snd (init ?E store0 webhook0)) = donations store0"
    "fundDonations (snd (init ?E store0 webhook0)) = fundDonations store0"
    by blast+
  from one r x n msg have w2: "init ?E store0 webhook0 =
       (Inr (Done ()),
        store0\<lparr>eventLogs := eventLogs store0
           @ [\<lparr>l_id = ev_id charge_failed_event, l_churchId = ''church1'',
               l_customerId = customer (ev_data charge_failed_event),
               l_provider = ''Stripe'', l_eventType = ev_type charge_failed_event,
               l_status = status (ev_data charge_failed_event),
               l_message = Val ''Your card was declined. The bank declined the charge.'',
               l_created =
                 new_Date (js_mul (to_number (created (ev_data charge_failed_event))) 1000)\<rparr>]\<rparr>)"
    by blast
  have a': "authenticate ?E' store0 webhook0
              = Inr (''church1'', ''sk_test'', charge_failed_no_outcome_event)"
    by (simp add: authenticate_def gateway_loadAll_def env_of_def fixture_defs)
  have t': "ev_type charge_failed_no_outcome_event \<noteq> ''charge.succeeded''"
    "ev_type charge_failed_no_outcome_event \<noteq> ''invoice.paid''"
    by (simp_all add: charge_failed_no_outcome_event_def)
  have r': "resolvePaymentMethodDetails ?E' ''sk_test'' (ev_data charge_failed_no_outcome_event)
             = Inr (Val card_details)"
    by (simp add: resolvePaymentMethodDetails_def charge_failed_no_outcome_event_def
        charge_failed_event_def charge_data0_def)
  have n': "eventLog_load store0 ''church1'' (ev_id charge_failed_no_outcome_event) = Inr None"
    by (simp add: eventLog_load_def store0_def)
  have msg': "eventMessage (ev_data charge_failed_no_outcome_event) = Inl TypeError"
    by (simp add: eventMessage_def charge_failed_no_outcome_event_def charge_failed_event_def
        charge_data0_def)
  from unrecognized_event_logged_not_donated [OF a' t', where pmd = "Val card_details"
      and m = "Label ''Card''" and md = "Val ''4242''" and e = TypeError] r' x n' msg'
  have w3: "init ?E' store0 webhook0 = (Inl TypeError, store0)"
    by blast
  have a3: "authenticate ?E store_logged webhook0
              = Inr (''church1'', ''sk_test'', charge_failed_event)"
    by (simp add: authenticate_def gateway_loadAll_def env_of_def fixture_defs store_logged_def)
  have e3: "eventLog_load store_logged ''church1'' (ev_id charge_failed_event)
              = Inr (Some (last (eventLogs store_logged)))"
    by (simp add: eventLog_load_def store_logged_def store0_def charge_failed_event_def)
  from unrecognized_event_logged_not_donated [OF a3 t, where pmd = "Val card_details"
      and m = "Label ''Card''" and md = "Val ''4242''"
      and l = "last (eventLogs store_logged)"] r x e3
  have w4: "init ?E store_logged webhook0 = (Inr (Done ()), store_logged)"
    by blast
  show ?thesis
    by (intro conjI) (rule a t w1 r x n msg w2 a' t' r' n' msg' w3 e3 w4)+
qed

text \<open>
  The claim as stated asks that no event log entry be made for such an event. A
  \<open>charge.failed\<close> event is logged, with its failure message.
\<close>

theorem charge_failed_event_is_logged:
  "ev_type charge_failed_event \<noteq> ''charge.succeeded''
   \<and> ev_type charge_failed_event \<noteq> ''invoice.paid''
   \<and> fst (init (env_of charge_failed_event) store0 webhook0) = Inr (Done ())
   \<and> eventLogs (snd (init (env_of charge_failed_event) store0 webhook0))
       = [\<lparr>l_id = ''evt_3'', l_churchId = ''church1'', l_customerId = Val ''cus_1'',
           l_provider = ''Stripe'', l_eventType = ''charge.failed'', l_status = Val ''failed'',
           l_message = Val ''Your card was declined. The bank declined the charge.'',
           l_created = Num 1600000000000\<rparr>]"
  by (simp add: webhook_defs fixture_defs charge_failed_event_def)

subsection \<open>Claim C4\<close>

lemma methodTypes_outside:
  "t \<noteq> ''ach_debit'' \<Longrightarrow> t \<noteq> ''card'' \<Longrightarrow>
     methodTypes t = (if t \<in> set object_prototype_keys then ProtoMember t else NoLabel)"
  by (simp add: methodTypes_def)

text \<open>
  C4, as the code has it. The extraction maps the type \<open>ach_debit\<close> to \<open>ACH Debit\<close> and
  \<open>card\<close> to \<open>Card\<close>, with the \<open>last4\<close> of the sub-object under the type's name as
  the method details. A type outside the table that has its sub-object is no error: the
  method is left \<open>undefined\<close> (or is the member of \<open>Object.prototype\<close> of that name) and
  the method details are the sub-object's \<open>last4\<close>. The extraction fails only with a
  TypeError, the one a missing object raises.
\<close>

theorem payment_details_extraction:
  "(pm_type p = Val ''ach_debit'' \<and> map_of (pm_subs p) ''ach_debit'' = Some sub \<longrightarrow>
      extractPaymentDetails (Val p) = Inr (Label ''ACH Debit'', last4 sub))
   \<and> (pm_type p = Val ''card'' \<and> map_of (pm_subs p) ''card'' = Some sub \<longrightarrow>
      extractPaymentDetails (Val p) = Inr (Label ''Card'', last4 sub))
   \<and> (pm_type p = Val t \<and> t \<noteq> ''ach_debit'' \<and> t \<noteq> ''card'' \<and> t \<noteq> ''type''
        \<and> map_of (pm_subs p) t = Some sub \<longrightarrow>
      extractPaymentDetails (Val p)
        = Inr (if t \<in> set object_prototype_keys then ProtoMember t else NoLabel, last4 sub))
   \<and> (extractPaymentDetails pmd = Inl e \<longrightarrow> e = TypeError)"
proof -
  have a: "extractPaymentDetails (Val p) = Inr (Label ''ACH Debit'', last4 sub)"
    if "pm_type p = Val ''ach_debit''" "map_of (pm_subs p) ''ach_debit'' = Some sub"
    using that by (simp add: extractPaymentDetails_def pm_last4_def methodTypes_def)
  have b: "extractPaymentDetails (Val p) = Inr (Label ''Card'', last4 sub)"
    if "pm_type p = Val ''card''" "map_of (pm_subs p) ''card'' = Some sub"
    using that by (simp add: extractPaymentDetails_def pm_last4_def methodTypes_def)
  have c: "extractPaymentDetails (Val p)
        = Inr (if t \<in> set object_prototype_keys then ProtoMember t else NoLabel, last4 sub)"
    if "pm_type p = Val t" "t \<noteq> ''ach_debit''" "t \<noteq> ''card''" "t \<noteq> ''type''"
      "map_of (pm_subs p) t = Some sub"
    using that by (simp add: extractPaymentDetails_def pm_last4_def methodTypes_outside)
  have d: "e = TypeError" if "extractPaymentDetails pmd = Inl e"
    using that
    by (auto simp: extractPaymentDetails_def pm_last4_def Let_def
        split: js.splits sum.splits option.splits if_splits)
  from a b c d show ?thesis by blast
qed

theorem payment_details_extraction_witness:
  "pm_type ach_details = Val ''ach_debit''
   \<and> map_of (pm_subs ach_details) ''ach_debit'' = Some \<lparr>last4 = Val ''6789''\<rparr>
   \<and> extractPaymentDetails (Val ach_details) = Inr (Label ''ACH Debit'', Val ''6789'')
   \<and> pm_type card_details = Val ''card''
   \<and> map_of (pm_subs card_details) ''card'' = Some \<lparr>last4 = Val ''4242''\<rparr>
   \<and> extractPaymentDetails (Val card_details) = Inr (Label ''Card'', Val ''4242'')
   \<and> pm_type sepa_details = Val ''sepa_debit''
   \<and> map_of (pm_subs sepa_details) ''sepa_debit'' = Some \<lparr>last4 = Val ''3000''\<rparr>
   \<and> extractPaymentDetails (Val sepa_details) = Inr (NoLabel, Val ''3000'')
   \<and> extractPaymentDetails (Val (sepa_details\<lparr>pm_subs := []\<rparr>)) = Inl TypeError"
proof -
  have a: "pm_type ach_details = Val ''ach_debit''"
    "map_of (pm_subs ach_details) ''ach_debit'' = Some \<lparr>last4 = Val ''6789''\<rparr>"
    by (simp_all add: ach_details_def)
  have b: "pm_type card_details = Val ''card''"
    "map_of (pm_subs card_details) ''card'' = Some \<lparr>last4 = Val ''4242''\<rparr>"
    by (simp_all add: card_details_def)
  have c: "pm_type sepa_details = Val ''sepa_debit''"
    "map_of (pm_subs sepa_details) ''sepa_debit'' = Some \<lparr>last4 = Val ''3000''\<rparr>"
    by (simp_all add: sepa_details_def)
  have k: "''sepa_debit'' \<notin> set object_prototype_keys"
    by (simp add: object_prototype_keys_def)
  have d: "extractPaymentDetails (Val (sepa_details\<lparr>pm_subs := []\<rparr>)) = Inl TypeError"
    by (simp add: extractPaymentDetails_def pm_last4_def sepa_details_def object_prototype_keys_def)
  from a payment_details_extraction [where p = ach_details and sub = "\<lparr>last4 = Val ''6789''\<rparr>"]
  have 1: "extractPaymentDetails (Val ach_details) = Inr (Label ''ACH Debit'', Val ''6789'')"
    by simp
  from b payment_details_extraction [where p = card_details and sub = "\<lparr>last4 = Val ''4242''\<rparr>"]
  have 2: "extractPaymentDetails (Val card_details) = Inr (Label ''Card'', Val ''4242'')"
    by simp
  from c k payment_details_extraction [where p = sepa_details and t = "''sepa_debit''"
      and sub = "\<lparr>last4 = Val ''3000''\<rparr>"]
  have 3: "extractPaymentDetails (Val sepa_details) = Inr (NoLabel, Val ''3000'')"
    by simp
  from a b c d 1 2 3 show ?thesis by simp
qed

text \<open>
  The claim as stated asks for an error on every type outside the table. A charge paid by
  SEPA debit is extracted without error and its donation is saved without a method.
\<close>

theorem unsupported_payment_method_is_not_an_error:
  "extractPaymentDetails (Val sepa_details) = Inr (NoLabel, Val ''3000'')
   \<and> fst (init (env_of sepa_charge_event) store0 webhook0) = Inr (Done ())
   \<and> map (\<lambda>d. (d_method d, d_methodDetails d))
        (donations (snd (init (env_of sepa_charge_event) store0 webhook0)))
       = [(NoLabel, Val ''3000'')]"
  by (simp add: webhook_defs fixture_defs ledger_defs sepa_charge_event_def sepa_details_def
      object_prototype_keys_def)

section \<open>Subscriptions and the funds of a donation\<close>

lemma promise_all_subscriptionFund_frame:
  "promise_all subscriptionFund_save st xs = (r, st') \<Longrightarrow>
     subscriptions st' = subscriptions st \<and> down st' = down st"
proof (induction xs arbitrary: st r st')
  case Nil
  then show ?case by simp
next
  case (Cons x xs)
  obtain r1 st1 where s1: "subscriptionFund_save st x = (r1, st1)"
    by (cases "subscriptionFund_save st x")
  obtain rs st2 where s2: "promise_all subscriptionFund_save st1 xs = (rs, st2)"
    by (cases "promise_all subscriptionFund_save st1 xs")
  from Cons.prems s1 s2 have "st' = st2" by (auto split: sum.splits)
  moreover from s1 have "subscriptions st1 = subscriptions st \<and> down st1 = down st"
    by (auto simp: subscriptionFund_save_def Let_def split: if_splits)
  ultimately show ?case using Cons.IH [OF s2] by simp
qed

lemma promise_all_subscriptionFund_rows:
  "promise_all subscriptionFund_save st xs = (Inr ys, st') \<Longrightarrow>
     subscriptionFunds st' = subscriptionFunds st @ ys
     \<and> map (\<lambda>r. (sf_churchId r, sf_subscriptionId r, sf_fundId r, sf_amount r)) ys
       = map (\<lambda>r. (sf_churchId r, sf_subscriptionId r, sf_fundId r, sf_amount r)) xs"
proof (induction xs arbitrary: st ys st')
  case Nil
  then show ?case by simp
next
  case (Cons x xs)
  obtain r1 st1 where s1: "subscriptionFund_save st x = (r1, st1)"
    by (cases "subscriptionFund_save st x")
  obtain rs st2 where s2: "promise_all subscriptionFund_save st1 xs = (rs, st2)"
    by (cases "promise_all subscriptionFund_save st1 xs")
  from Cons.prems s1 s2 obtain y ys' where
    r1: "r1 = Inr y" and rs: "rs = Inr ys'" and ys: "ys = y # ys'" and st': "st' = st2"
    by (auto split: sum.splits)
  from s1 r1 have y: "subscriptionFunds st1 = subscriptionFunds st @ [y]"
    "sf_churchId y = sf_churchId x" "sf_subscriptionId y = sf_subscriptionId x"
    "sf_fundId y = sf_fundId x" "sf_amount y = sf_amount x"
    by (auto simp: subscriptionFund_save_def Let_def split: if_splits)
  from Cons.IH [OF s2 [unfolded rs]] y ys st' show ?case by simp
qed

lemma subscribe_success:
  assumes "subscribe env st c body = (Inr (Done rows), st')"
  shows "\<exists>sub. subscriptions st' = subscriptions st @ [sub]
           \<and> subscriptionFunds st' = subscriptionFunds st @ rows
           \<and> map (\<lambda>r. (sf_churchId r, sf_subscriptionId r, sf_fundId r, sf_amount r)) rows
             = map (\<lambda>fund. (c, s_id sub, f_id fund, f_amount fund)) (sb_funds body)"
proof -
  from assms obtain k where k: "loadPrivateKey env st c = Inr k" "k \<noteq> []"
    by (cases "loadPrivateKey env st c") (auto simp: subscribe_def split: if_splits)
  with assms obtain g rest where g: "gateway_loadAll st c = Inr (g # rest)"
    by (cases "gateway_loadAll st c") (auto simp: subscribe_def split: list.splits)
  let ?pd = "\<lparr>pd_payment_method_id = sb_id body, pd_amount = sb_amount body,
               pd_currency = ''usd'', pd_customer = sb_customerId body, pd_type = sb_type body,
               pd_billing_cycle_anchor = sb_billing_cycle_anchor body,
               pd_proration_behavior = sb_proration_behavior body,
               pd_interval = sb_interval body, pd_productId = Val (g_productId g)\<rparr>"
  from assms k g obtain sid where sid: "createSubscription env k ?pd = Inr sid"
    by (cases "createSubscription env k ?pd") (auto simp: subscribe_def)
  from assms k g sid obtain p where p: "sb_person body = Val p"
    by (cases "sb_person body") (auto simp: subscribe_def)
  let ?s = "\<lparr>s_id = sid, s_churchId = c, s_personId = p_id p, s_customerId = sb_customerId body\<rparr>"
  obtain r1 st1 where s1: "subscription_save st ?s = (r1, st1)"
    by (cases "subscription_save st ?s")
  from assms k g sid p s1 obtain sub where r1: "r1 = Inr sub"
    by (cases r1) (auto simp: subscribe_def)
  from s1 r1 have s: "subscription_save st ?s = (Inr sub, st1)" by simp
  from assms k g sid p s have pa:
    "promise_all subscriptionFund_save st1 (subscriptionFundRows c sid (sb_funds body))
       = (Inr rows, st')"
    by (auto simp: subscribe_def split: sum.splits prod.splits)
  from s have sub: "s_id sub = sid" "subscriptions st1 = subscriptions st @ [sub]"
    "subscriptionFunds st1 = subscriptionFunds st"
    by (auto simp: subscription_save_def split: if_splits)
  from promise_all_subscriptionFund_rows [OF pa] promise_all_subscriptionFund_frame [OF pa] sub
  show ?thesis by (simp add: subscriptionFundRows_def comp_def)
qed

lemma subscribe_rows:
  assumes "subscribe env st c body = (Inr (Done rows), st')"
  shows "subscriptionFunds st' = subscriptionFunds st @ rows"
    and "map (\<lambda>sf. (sf_fundId sf, sf_amount sf)) rows
           = map (\<lambda>fund. (f_id fund, f_amount fund)) (sb_funds body)"
    and "filter (\<lambda>sf. sf_churchId sf = c \<and> sf_subscriptionId sf = s_id (last (subscriptions st')))
           rows = rows"
proof -
  from subscribe_success [OF assms] obtain sub :: subscription where
    s: "subscriptions st' = subscriptions st @ [sub]"
    and f: "subscriptionFunds st' = subscriptionFunds st @ rows"
    and m: "map (\<lambda>r. (sf_churchId r, sf_subscriptionId r, sf_fundId r, sf_amount r)) rows
             = map (\<lambda>fund. (c, s_id sub, f_id fund, f_amount fund)) (sb_funds body)"
    by (elim exE conjE) (rule that)
  from f show "subscriptionFunds st' = subscriptionFunds st @ rows" .
  from arg_cong [OF m, of "map (\<lambda>q. (fst (snd (snd q)), snd (snd (snd q))))"]
  show "map (\<lambda>sf. (sf_fundId sf, sf_amount sf)) rows
          = map (\<lambda>fund. (f_id fund, f_amount fund)) (sb_funds body)"
    by (simp add: comp_def)
  have "sf_churchId r = c \<and> sf_subscriptionId r = s_id sub" if "r \<in> set rows" for r
  proof -
    from that have "(sf_churchId r, sf_subscriptionId r, sf_fundId r, sf_amount r)
        \<in> set (map (\<lambda>r. (sf_churchId r, sf_subscriptionId r, sf_fundId r, sf_amount r)) rows)"
      by (simp add: image_iff) blast
    with m have "(sf_churchId r, sf_subscriptionId r, sf_fundId r, sf_amount r)
        \<in> set (map (\<lambda>fund. (c, s_id sub, f_id fund, f_amount fund)) (sb_funds body))"
      by simp
    then show ?thesis by auto
  qed
  with s show "filter (\<lambda>sf. sf_churchId sf = c \<and> sf_subscriptionId sf = s_id (last (subscriptions st')))
           rows = rows"
    by (simp add: filter_id_conv)
qed

lemma init_fund_split:
  assumes auth: "authenticate env st req = Inr (c, k, ev)"
      and ty: "ev_type ev = ''charge.succeeded'' \<or> ev_type ev = ''invoice.paid''"
      and md: "metadata (ev_data ev) = Val mdv"
      and ok: "init env st req = (Inr (Done ()), st')"
  shows "if truthy_str (funds mdv)
         then \<exists>fs. json_parse env (js_str (funds mdv)) = Inr (FundArray fs)
                \<and> map (\<lambda>r. (fd_fundId r, fd_amount r))
                      (drop (length (fundDonations st)) (fundDonations st'))
                    = map (\<lambda>fund. (f_id fund, f_amount fund)) fs
         else map (\<lambda>r. (fd_fundId r, fd_amount r))
                (drop (length (fundDonations st)) (fundDonations st'))
                = map (\<lambda>sf. (sf_fundId sf, sf_amount sf))
                    (filter (\<lambda>sf. sf_churchId sf = c
                                 \<and> Val (sf_subscriptionId sf) = subscription (ev_data ev))
                       (subscriptionFunds st))"
proof -
  from auth ok have p: "process env st c k ev = (Inr (Done ()), st')" by (simp add: init_process)
  have ns: "\<not> (ev_type ev = ''charge.succeeded'' \<and> subscriptionEvent (ev_data ev))"
  proof
    assume "ev_type ev = ''charge.succeeded'' \<and> subscriptionEvent (ev_data ev)"
    with p show False by (simp add: process_def)
  qed
  with ty have ty': "ev_type ev = ''invoice.paid''
               \<or> ev_type ev = ''charge.succeeded'' \<and> \<not> subscriptionEvent (ev_data ev)" by blast
  from process_donation [OF p ty'] md obtain d :: donation and fs rows where
    rf: "resolveFunds env st c mdv (subscription (ev_data ev)) = Inr (FundArray fs)"
    and fd: "fundDonations st' = fundDonations st @ rows"
    and m: "map (\<lambda>r. (fd_fundId r, fd_amount r, fd_donationId r)) rows
             = map (\<lambda>fund. (f_id fund, f_amount fund, d_id d)) fs"
    by auto
  from arg_cong [OF m, of "map (\<lambda>q. (fst q, fst (snd q)))"] have
    m': "map (\<lambda>r. (fd_fundId r, fd_amount r)) rows = map (\<lambda>fund. (f_id fund, f_amount fund)) fs"
    by (simp add: comp_def)
  from fd have dr: "drop (length (fundDonations st)) (fundDonations st') = rows" by simp
  show ?thesis
  proof (cases "truthy_str (funds mdv)")
    case True
    with rf have "json_parse env (js_str (funds mdv)) = Inr (FundArray fs)"
      by (simp add: resolveFunds_def)
    with True m' dr show ?thesis by simp
  next
    case False
    with rf have fs: "fs = map fund_of_row
        (filter (\<lambda>sf. sf_churchId sf = c \<and> Val (sf_subscriptionId sf) = subscription (ev_data ev))
           (subscriptionFunds st))"
      by (auto simp: resolveFunds_def subscriptionFund_loadBySubscriptionId_def
          split: if_splits sum.splits)
    with False dr m' show ?thesis by (simp add: comp_def fund_of_row_def)
  qed
qed

subsection \<open>Claim C6\<close>

text \<open>
  C6. For a verified \<open>charge.succeeded\<close> or \<open>invoice.paid\<close> event that the webhook
  handles to its end, the fund donations it adds have the fund ids and amounts of the
  parsed \<open>metadata.funds\<close> when the event carries that text, and otherwise those of the
  stored subscription fund rows of the tenant with the event's subscription id. Hence,
  after \<open>subscribe\<close> has stored the funds of a new subscription (no row of that
  subscription id was there before), an \<open>invoice.paid\<close> event of that subscription
  without \<open>metadata.funds\<close>, handled on a store with those rows, adds fund donations
  with the fund ids and amounts of the funds of the subscribe request, in order.
\<close>

theorem fund_split_resolution:
  "(authenticate env st req = Inr (c, k, ev)
      \<and> (ev_type ev = ''charge.succeeded'' \<or> ev_type ev = ''invoice.paid'')
      \<and> metadata (ev_data ev) = Val mdv
      \<and> init env st req = (Inr (Done ()), st') \<longrightarrow>
    (if truthy_str (funds mdv)
     then \<exists>fs. json_parse env (js_str (funds mdv)) = Inr (FundArray fs)
            \<and> map (\<lambda>r. (fd_fundId r, fd_amount r))
                  (drop (length (fundDonations st)) (fundDonations st'))
                = map (\<lambda>fund. (f_id fund, f_amount fund)) fs
     else map (\<lambda>r. (fd_fundId r, fd_amount r))
            (drop (length (fundDonations st)) (fundDonations st'))
            = map (\<lambda>sf. (sf_fundId sf, sf_amount sf))
                (filter (\<lambda>sf. sf_churchId sf = c
                             \<and> Val (sf_subscriptionId sf) = subscription (ev_data ev))
                   (subscriptionFunds st))))
   \<and> (subscribe envs sta c body = (Inr (Done saved), stb)
      \<and> filter (\<lambda>sf. sf_churchId sf = c \<and> sf_subscriptionId sf = s_id (last (subscriptions stb)))
           (subscriptionFunds sta) = []
      \<and> subscriptionFunds st = subscriptionFunds stb
      \<and> authenticate env st req = Inr (c, k, ev)
      \<and> ev_type ev = ''invoice.paid''
      \<and> subscription (ev_data ev) = Val (s_id (last (subscriptions stb)))
      \<and> metadata (ev_data ev) = Val mdv \<and> \<not> truthy_str (funds mdv)
      \<and> init env st req = (Inr (Done ()), st') \<longrightarrow>
    map (\<lambda>r. (fd_fundId r, fd_amount r)) (drop (length (fundDonations st)) (fundDonations st'))
      = map (\<lambda>fund. (f_id fund, f_amount fund)) (sb_funds body))"
proof (intro conjI impI)
  assume "authenticate env st req = Inr (c, k, ev)
      \<and> (ev_type ev = ''charge.succeeded'' \<or> ev_type ev = ''invoice.paid'')
      \<and> metadata (ev_data ev) = Val mdv
      \<and> init env st req = (Inr (Done ()), st')"
  then show "if truthy_str (funds mdv)
     then \<exists>fs. json_parse env (js_str (funds mdv)) = Inr (FundArray fs)
            \<and> map (\<lambda>r. (fd_fundId r, fd_amount r))
                  (drop (length (fundDonations st)) (fundDonations st'))
                = map (\<lambda>fund. (f_id fund, f_amount fund)) fs
     else map (\<lambda>r. (fd_fundId r, fd_amount r))
            (drop (length (fundDonations st)) (fundDonations st'))
            = map (\<lambda>sf. (sf_fundId sf, sf_amount sf))
                (filter (\<lambda>sf. sf_churchId sf = c
                             \<and> Val (sf_subscriptionId sf) = subscription (ev_data ev))
                   (subscriptionFunds st))"
    using init_fund_split [of env st req c k ev mdv st'] by blast
next
  assume h: "subscribe envs sta c body = (Inr (Done saved), stb)
      \<and> filter (\<lambda>sf. sf_churchId sf = c \<and> sf_subscriptionId sf = s_id (last (subscriptions stb)))
           (subscriptionFunds sta) = []
      \<and> subscriptionFunds st = subscriptionFunds stb
      \<and> authenticate env st req = Inr (c, k, ev)
      \<and> ev_type ev = ''invoice.paid''
      \<and> subscription (ev_data ev) = Val (s_id (last (subscriptions stb)))
      \<and> metadata (ev_data ev) = Val mdv \<and> \<not> truthy_str (funds mdv)
      \<and> init env st req = (Inr (Done ()), st')"
  then have sub: "subscribe envs sta c body = (Inr (Done saved), stb)" by simp
  let ?P = "\<lambda>sf. sf_churchId sf = c \<and> sf_subscriptionId sf = s_id (last (subscriptions stb))"
  from subscribe_rows [OF sub] h have "filter ?P (subscriptionFunds st) = saved"
    by simp
  moreover from h have
    "filter (\<lambda>sf. sf_churchId sf = c \<and> Val (sf_subscriptionId sf) = subscription (ev_data ev))
       (subscriptionFunds st) = filter ?P (subscriptionFunds st)"
    by simp
  moreover from h init_fund_split [of env st req c k ev mdv st'] have
    "map (\<lambda>r. (fd_fundId r, fd_amount r)) (drop (length (fundDonations st)) (fundDonations st'))
            = map (\<lambda>sf. (sf_fundId sf, sf_amount sf))
                (filter (\<lambda>sf. sf_churchId sf = c
                             \<and> Val (sf_subscriptionId sf) = subscription (ev_data ev))
                   (subscriptionFunds st))"
    by simp
  moreover note subscribe_rows(2) [OF sub]
  ultimately show "map (\<lambda>r. (fd_fundId r, fd_amount r))
        (drop (length (fundDonations st)) (fundDonations st'))
      = map (\<lambda>fund. (f_id fund, f_amount fund)) (sb_funds body)"
    by simp
qed

theorem fund_split_resolution_witness:
  "authenticate (env_of one_time_charge_event) store0 webhook0
      = Inr (''church1'', ''sk_test'', one_time_charge_event)
   \<and> ev_type one_time_charge_event = ''charge.succeeded''
   \<and> init (env_of one_time_charge_event) store0 webhook0
      = (Inr (Done ()), snd (init (env_of one_time_charge_event) store0 webhook0))
   \<and> metadata (ev_data one_time_charge_event) = Val \<lparr>funds = Val funds_json\<rparr>
   \<and> json_parse (env_of one_time_charge_event) (js_str (funds \<lparr>funds = Val funds_json\<rparr>))
      = Inr (FundArray fundsA)
   \<and> map (\<lambda>r. (fd_fundId r, fd_amount r))
        (drop (length (fundDonations store0))
           (fundDonations (snd (init (env_of one_time_charge_event) store0 webhook0))))
      = [(''fundA'', 10), (''fundB'', 15)]
   \<and> fst (subscribe (env_of invoice_paid_event) store0 ''church1'' subscribe0)
      = Inr (Done (subscriptionFunds store1))
   \<and> snd (subscribe (env_of invoice_paid_event) store0 ''church1'' subscribe0) = store1
   \<and> filter (\<lambda>sf. sf_churchId sf = ''church1''
                  \<and> sf_subscriptionId sf = s_id (last (subscriptions store1)))
        (subscriptionFunds store0) = []
   \<and> authenticate (env_of invoice_paid_event) store1 webhook0
      = Inr (''church1'', ''sk_test'', invoice_paid_event)
   \<and> ev_type invoice_paid_event = ''invoice.paid''
   \<and> subscription (ev_data invoice_paid_event) = Val (s_id (last (subscriptions store1)))
   \<and> metadata (ev_data invoice_paid_event) = Val \<lparr>funds = Undefined\<rparr>
   \<and> init (env_of invoice_paid_event) store1 webhook0
      = (Inr (Done ()), snd (init (env_of invoice_paid_event) store1 webhook0))
   \<and> map (\<lambda>r. (fd_fundId r, fd_amount r))
        (drop (length (fundDonations store1))
           (fundDonations (snd (init (env_of invoice_paid_event) store1 webhook0))))
      = map (\<lambda>fund. (f_id fund, f_amount fund)) (sb_funds subscribe0)
   \<and> map (\<lambda>fund. (f_id fund, f_amount fund)) (sb_funds subscribe0)
      = [(''fundA'', 10), (''fundB'', 15)]"
proof -
  let ?E4 = "env_of one_time_charge_event"
  let ?E1 = "env_of invoice_paid_event"
  let ?md4 = "\<lparr>funds = Val funds_json\<rparr>"
  have a4: "authenticate ?E4 store0 webhook0 = Inr (''church1'', ''sk_test'', one_time_charge_event)"
    by (simp add: authenticate_def gateway_loadAll_def env_of_def fixture_defs)
  have t4: "ev_type one_time_charge_event = ''charge.succeeded''"
    by (simp add: one_time_charge_event_def)
  have m4: "metadata (ev_data one_time_charge_event) = Val ?md4"
    by (simp add: one_time_charge_event_def charge_data0_def)
  have "fst (init ?E4 store0 webhook0) = Inr (Done ())"
    by (simp add: webhook_defs fixture_defs ledger_defs one_time_charge_event_def)
  then have i4: "init ?E4 store0 webhook0 = (Inr (Done ()), snd (init ?E4 store0 webhook0))"
    by (simp add: prod_eq_iff)
  have tr4: "truthy_str (funds ?md4)" by (simp add: funds_json_def)
  have j4: "json_parse ?E4 (js_str (funds ?md4)) = Inr (FundArray fundsA)"
    by (simp add: env_of_def)
  have "if truthy_str (funds ?md4)
     then \<exists>fs. json_parse ?E4 (js_str (funds ?md4)) = Inr (FundArray fs)
            \<and> map (\<lambda>r. (fd_fundId r, fd_amount r))
                  (drop (length (fundDonations store0))
                     (fundDonations (snd (init ?E4 store0 webhook0))))
                = map (\<lambda>fund. (f_id fund, f_amount fund)) fs
     else map (\<lambda>r. (fd_fundId r, fd_amount r))
            (drop (length (fundDonations store0)) (fundDonations (snd (init ?E4 store0 webhook0))))
            = map (\<lambda>sf. (sf_fundId sf, sf_amount sf))
                (filter (\<lambda>sf. sf_churchId sf = ''church1''
                             \<and> Val (sf_subscriptionId sf) = subscription (ev_data one_time_charge_event))
                   (subscriptionFunds store0))"
    by (rule mp [OF conjunct1 [OF fund_split_resolution [where env = ?E4 and st = store0
              and req = webhook0 and c = "''church1''" and k = "''sk_test''"
              and ev = one_time_charge_event and mdv = ?md4
              and st' = "snd (init ?E4 store0 webhook0)"]]])
      (intro conjI disjI1, (rule a4 t4 m4 i4)+)
  with tr4 j4 have r4: "map (\<lambda>r. (fd_fundId r, fd_amount r))
        (drop (length (fundDonations store0)) (fundDonations (snd (init ?E4 store0 webhook0))))
      = [(''fundA'', 10), (''fundB'', 15)]"
    by (auto simp: fundsA_def)
  have s: "subscribe ?E1 store0 ''church1'' subscribe0 = (Inr (Done (subscriptionFunds store1)), store1)"
    by (simp add: subscribe_def loadPrivateKey_def gateway_loadAll_def env_of_def
        subscription_save_def subscriptionFund_save_def subscriptionFundRows_def subscribe0_def
        gen_id_def string_of_nat.simps Let_def fixture_defs)
  have fr: "filter (\<lambda>sf. sf_churchId sf = ''church1''
                  \<and> sf_subscriptionId sf = s_id (last (subscriptions store1)))
        (subscriptionFunds store0) = []"
    by (simp add: store0_def)
  have a1: "authenticate ?E1 store1 webhook0 = Inr (''church1'', ''sk_test'', invoice_paid_event)"
    by (simp add: authenticate_def gateway_loadAll_def env_of_def fixture_defs)
  have t1: "ev_type invoice_paid_event = ''invoice.paid''"
    and su1: "subscription (ev_data invoice_paid_event) = Val (s_id (last (subscriptions store1)))"
    and m1: "metadata (ev_data invoice_paid_event) = Val \<lparr>funds = Undefined\<rparr>"
    by (simp_all add: invoice_paid_event_def fixture_defs)
  have "fst (init ?E1 store1 webhook0) = Inr (Done ())"
    by (simp add: webhook_defs fixture_defs ledger_defs invoice_paid_event_def)
  then have i1: "init ?E1 store1 webhook0 = (Inr (Done ()), snd (init ?E1 store1 webhook0))"
    by (simp add: prod_eq_iff)
  have r1: "map (\<lambda>r. (fd_fundId r, fd_amount r))
        (drop (length (fundDonations store1)) (fundDonations (snd (init ?E1 store1 webhook0))))
      = map (\<lambda>fund. (f_id fund, f_amount fund)) (sb_funds subscribe0)"
    by (rule mp [OF conjunct2 [OF fund_split_resolution [where envs = ?E1 and sta = store0
              and body = subscribe0 and saved = "subscriptionFunds store1" and stb = store1
              and env = ?E1 and st = store1 and req = webhook0 and c = "''church1''"
              and k = "''sk_test''" and ev = invoice_paid_event and mdv = "\<lparr>funds = Undefined\<rparr>"
              and st' = "snd (init ?E1 store1 webhook0)"]]])
      (intro conjI, (rule s fr a1 t1 su1 m1 i1 refl | simp)+)
  have v: "map (\<lambda>fund. (f_id fund, f_amount fund)) (sb_funds subscribe0)
             = [(''fundA'', 10), (''fundB'', 15)]"
    by (simp add: subscribe0_def fundsA_def)
  from s have s1: "fst (subscribe ?E1 store0 ''church1'' subscribe0)
      = Inr (Done (subscriptionFunds store1))"
    and s2: "snd (subscribe ?E1 store0 ''church1'' subscribe0) = store1" by simp_all
  show ?thesis
    by (intro conjI) (rule a4 t4 i4 m4 j4 r4 s1 s2 fr a1 t1 su1 m1 i1 r1 v)+
qed

section \<open>The anonymous log entry point\<close>

subsection \<open>Claim C9\<close>

text \<open>
  C9 asks that a persistence failure make the request fail; \<open>log\<close> does not await
  \<open>logDonation\<close>. With the donation repository down, \<open>logDonation\<close> fails with a
  persistence failure, and the request to /donate/log that called it completes as if
  nothing had happened, with no donation saved; so it does with the fund donation
  repository down. The webhook, which awaits \<open>logDonation\<close>, raises the failure on the
  same store.
\<close>

theorem log_request_succeeds_when_donation_save_fails:
  "fst (logDonation (store0\<lparr>down := {DonationRepo}\<rparr>) (lr_donation log0) [lr_fundData log0])
     = Inl PersistenceFailure
   \<and> fst (log (env_of one_time_charge_event) (store0\<lparr>down := {DonationRepo}\<rparr>) log0) = Inr (Done ())
   \<and> donations (snd (log (env_of one_time_charge_event) (store0\<lparr>down := {DonationRepo}\<rparr>) log0)) = []
   \<and> fst (log (env_of one_time_charge_event) (store0\<lparr>down := {FundDonationRepo}\<rparr>) log0) = Inr (Done ())
   \<and> fst (init (env_of one_time_charge_event) (store0\<lparr>down := {DonationRepo}\<rparr>) webhook0)
     = Inl PersistenceFailure"
  by (simp add: log_def loadPrivateKey_def log0_def webhook_defs fixture_defs ledger_defs
      one_time_charge_event_def)

subsection \<open>Claim C10\<close>

text \<open>
  C10, as the code has it. The anonymous log entry point looks at the tenant named in the
  donation, not at a key of the caller: when that tenant has no gateway, or the decrypted
  private key of its first gateway is empty, the body returns status 401 and writes
  nothing; when the key is not empty the donation goes to \<open>logDonation\<close> and the body
  completes. The headers of the request make no difference.
\<close>

theorem log_checks_the_tenant_key_only:
  "(gateway_loadAll st (d_churchId (lr_donation req)) = Inr [] \<longrightarrow>
      log env st req = (Inr (Json 401), st))
   \<and> (gateway_loadAll st (d_churchId (lr_donation req)) = Inr (g # rest)
        \<and> decrypt env (g_privateKey g) = [] \<longrightarrow>
      log env st req = (Inr (Json 401), st))
   \<and> (gateway_loadAll st (d_churchId (lr_donation req)) = Inr (g # rest)
        \<and> decrypt env (g_privateKey g) \<noteq> [] \<longrightarrow>
      log env st req
        = (Inr (Done ()), snd (logDonation st (lr_donation req) [lr_fundData req])))
   \<and> log env st (req\<lparr>lr_headers := h\<rparr>) = log env st req"
proof (intro conjI impI)
  assume "gateway_loadAll st (d_churchId (lr_donation req)) = Inr []"
  then have "loadPrivateKey env st (d_churchId (lr_donation req)) = Inr []"
    by (simp add: loadPrivateKey_def)
  then show "log env st req = (Inr (Json 401), st)"
    by (simp add: log_def)
next
  assume "gateway_loadAll st (d_churchId (lr_donation req)) = Inr (g # rest)
        \<and> decrypt env (g_privateKey g) = []"
  then have "loadPrivateKey env st (d_churchId (lr_donation req)) = Inr []"
    by (simp add: loadPrivateKey_def)
  then show "log env st req = (Inr (Json 401), st)"
    by (simp add: log_def)
next
  assume "gateway_loadAll st (d_churchId (lr_donation req)) = Inr (g # rest)
        \<and> decrypt env (g_privateKey g) \<noteq> []"
  then have "loadPrivateKey env st (d_churchId (lr_donation req))
               = Inr (decrypt env (g_privateKey g))"
    and "decrypt env (g_privateKey g) \<noteq> []"
    by (simp_all add: loadPrivateKey_def)
  then show "log env st req
        = (Inr (Done ()), snd (logDonation st (lr_donation req) [lr_fundData req]))"
    by (simp add: log_def split: prod.splits)
next
  show "log env st (req\<lparr>lr_headers := h\<rparr>) = log env st req"
    by (simp add: log_def split: sum.splits)
qed

theorem log_checks_the_tenant_key_only_witness:
  "gateway_loadAll (store0\<lparr>gateways := []\<rparr>) (d_churchId (lr_donation log0)) = Inr []
   \<and> log (env_of one_time_charge_event) (store0\<lparr>gateways := []\<rparr>) log0
       = (Inr (Json 401), store0\<lparr>gateways := []\<rparr>)
   \<and> gateway_loadAll (store0\<lparr>gateways := [gateway0\<lparr>g_privateKey := []\<rparr>]\<rparr>)
        (d_churchId (lr_donation log0)) = Inr [gateway0\<lparr>g_privateKey := []\<rparr>]
   \<and> decrypt (env_of one_time_charge_event) (g_privateKey (gateway0\<lparr>g_privateKey := []\<rparr>)) = []
   \<and> log (env_of one_time_charge_event) (store0\<lparr>gateways := [gateway0\<lparr>g_privateKey := []\<rparr>]\<rparr>) log0
       = (Inr (Json 401), store0\<lparr>gateways := [gateway0\<lparr>g_privateKey := []\<rparr>]\<rparr>)
   \<and> gateway_loadAll store0 (d_churchId (lr_donation log0)) = Inr [gateway0]
   \<and> decrypt (env_of one_time_charge_event) (g_privateKey gateway0) \<noteq> []
   \<and> log (env_of one_time_charge_event) store0 log0
       = (Inr (Done ()), snd (logDonation store0 (lr_donation log0) [lr_fundData log0]))
   \<and> log (env_of one_time_charge_event) store0 (log0\<lparr>lr_headers := [(''x-api-key'', ''sk_test'')]\<rparr>)
       = log (env_of one_time_charge_event) store0 log0"
proof -
  let ?E = "env_of one_time_charge_event"
  let ?g = "gateway0\<lparr>g_privateKey := []\<rparr>"
  have g0: "gateway_loadAll (store0\<lparr>gateways := []\<rparr>) (d_churchId (lr_donation log0)) = Inr []"
    by (simp add: gateway_loadAll_def store0_def)
  have g1: "gateway_loadAll (store0\<lparr>gateways := [?g]\<rparr>) (d_churchId (lr_donation log0)) = Inr [?g]"
    by (simp add: gateway_loadAll_def store0_def gateway0_def log0_def)
  have k1: "decrypt ?E (g_privateKey ?g) = []" by (simp add: env_of_def)
  have g2: "gateway_loadAll store0 (d_churchId (lr_donation log0)) = Inr [gateway0]"
    by (simp add: gateway_loadAll_def store0_def gateway0_def log0_def)
  have k2: "decrypt ?E (g_privateKey gateway0) \<noteq> []" by (simp add: env_of_def gateway0_def)
  from g0 log_checks_the_tenant_key_only [where st = "store0\<lparr>gateways := []\<rparr>" and req = log0
      and env = ?E]
  have 1: "log ?E (store0\<lparr>gateways := []\<rparr>) log0 = (Inr (Json 401), store0\<lparr>gateways := []\<rparr>)"
    by simp
  from g1 k1 log_checks_the_tenant_key_only [where st = "store0\<lparr>gateways := [?g]\<rparr>" and req = log0
      and env = ?E and g = ?g and rest = "[]"]
  have 2: "log ?E (store0\<lparr>gateways := [?g]\<rparr>) log0 = (Inr (Json 401), store0\<lparr>gateways := [?g]\<rparr>)"
    by simp
  from g2 k2 log_checks_the_tenant_key_only [where st = store0 and req = log0
      and env = ?E and g = gateway0 and rest = "[]" and h = "[(''x-api-key'', ''sk_test'')]"]
  have 3: "log ?E store0 log0
       = (Inr (Done ()), snd (logDonation store0 (lr_donation log0) [lr_fundData log0]))"
    and 4: "log ?E store0 (log0\<lparr>lr_headers := [(''x-api-key'', ''sk_test'')]\<rparr>) = log ?E store0 log0"
    by simp_all
  from g0 g1 k1 g2 k2 1 2 3 4 show ?thesis by simp
qed

text \<open>
  The claim as stated asks that a request showing no key be refused and log nothing. A
  request with no header, and a body of a donation and a fund, is accepted and its
  donation logged.
\<close>

theorem anonymous_log_accepts_request_without_key:
  "lr_headers log0 = []
   \<and> fst (log (env_of one_time_charge_event) store0 log0) = Inr (Done ())
   \<and> fst (log (env_of one_time_charge_event) store0 log0) \<noteq> Inr (Json 401)
   \<and> map d_amount (donations (snd (log (env_of one_time_charge_event) store0 log0))) = [Num 50]
   \<and> map fd_amount (fundDonations (snd (log (env_of one_time_charge_event) store0 log0))) = [50]"
  by (simp add: log_def loadPrivateKey_def log0_def webhook_defs fixture_defs ledger_defs)


end
